theory Spec2Isabelle
  imports Main "HOL-Library.Sublist"
begin

section \<open>The plugin CI pipeline of grafana-toolkit (cli/tasks/plugin.ci.ts)\<close>

text \<open>
  The four task runners of \<^verbatim>\<open>plugin.ci.ts\<close> are embedded as functions that
  take the part of the world they read (an environment record holding the
  values returned by the collaborators the file imports) and the state they
  change (a remote store, a working directory), and return the outcome, the
  new state and, for the Report Stage, the sequence of operations performed.
  A thrown \<^verbatim>\<open>Error\<close> is a value of type \<open>error\<close>.
\<close>

subsection \<open>Values of the host language\<close>

type_synonym path = string

text \<open>An opaque JSON value produced by a collaborator, kept as its text.\<close>
type_synonym json = string

text \<open>
  A folder as the files below it: relative path and content, in directory
  order. Directories themselves are implicit in the paths.
\<close>
type_synonym tree = "(string \<times> string) list"

datatype error =
    CannotFindModule path
  | UnableToFindPluginJson path
  | InvalidPluginJson string
  | MetadataMissingBuildInfo
  | JobAlreadyRegistered string
  | DuplicateFilesFoundInDistFolders
  | InvalidZipFile path
  | MissingMakefile path
  | NoSuchDirectory path
  | CommandFailed string
  | RequestFailed string
  | TypeError string
  | WrongPluginVersion
  | TestRunnerFailed string

text \<open>\<^verbatim>\<open>path.resolve(base, name)\<close> for an absolute \<open>base\<close> and a plain relative name.\<close>
definition path_resolve :: "path \<Rightarrow> string \<Rightarrow> path" where
  "path_resolve base name = base @ ''/'' @ name"

text \<open>
  Numbers reaching the keys are the pull-request and build numbers, which the
  environment parses from decimal text: they are integers here, and
  \<^verbatim>\<open>undefined\<close> is \<open>None\<close>. A template literal renders a number in decimal
  and \<^verbatim>\<open>undefined\<close> as the word itself.
\<close>
fun dec :: "nat \<Rightarrow> string" where
  "dec n = (if n < 10 then [''0123456789'' ! n]
            else dec (n div 10) @ [''0123456789'' ! (n mod 10)])"

definition js_number :: "int \<Rightarrow> string" where
  "js_number i = (if i < 0 then ''-'' @ dec (nat (- i)) else dec (nat i))"

definition template_number :: "int option \<Rightarrow> string" where
  "template_number v = (case v of None \<Rightarrow> ''undefined'' | Some i \<Rightarrow> js_number i)"

text \<open>Truthiness: \<^verbatim>\<open>undefined\<close> and \<open>0\<close> are falsy numbers, \<^verbatim>\<open>undefined\<close> and \<^verbatim>\<open>''\<close> falsy strings.\<close>
definition truthy_number :: "int option \<Rightarrow> bool" where
  "truthy_number v = (case v of None \<Rightarrow> False | Some i \<Rightarrow> i \<noteq> 0)"

text \<open>\<^verbatim>\<open>v || 'unknown'\<close> on an optional string.\<close>
definition or_unknown :: "string option \<Rightarrow> string" where
  "or_unknown v = (case v of None \<Rightarrow> ''unknown'' | Some x \<Rightarrow> if x = [] then ''unknown'' else x)"

subsection \<open>The plugin manifest and the report (plugins/types, @grafana/data)\<close>

text \<open>\<^verbatim>\<open>PluginBuildInfo\<close>: every field is optional.\<close>
record build_info =
  build_time :: "int option"
  build_repo :: "string option"
  build_branch :: "string option"
  build_hash :: "string option"
  build_number :: "int option"
  build_pr :: "int option"

text \<open>\<^verbatim>\<open>PluginMetaInfo\<close>, with the fields the pipeline reads.\<close>
record plugin_info =
  info_version :: "string option"
  info_build :: "build_info option"
  info_logos :: json

text \<open>\<^verbatim>\<open>PluginMeta\<close>.\<close>
record plugin_meta =
  meta_id :: string
  meta_name :: string
  meta_type :: string
  meta_info :: plugin_info

text \<open>\<^verbatim>\<open>PluginBuildReport\<close>.\<close>
record plugin_build_report =
  report_plugin :: plugin_meta
  report_packages :: json
  report_workflow :: json
  report_coverage :: json
  report_tests :: json
  report_artifactsBaseURL :: string
  report_grafanaVersion :: json
  report_pullRequest :: "int option"

text \<open>\<^verbatim>\<open>PluginDevInfo\<close>: the history record of one published build.\<close>
record plugin_dev_info =
  dev_pluginId :: string
  dev_name :: string
  dev_logo :: "string option"
  dev_build :: build_info
  dev_version :: string

text \<open>\<^verbatim>\<open>PluginDevSummary\<close>: the per-plugin index.\<close>
record plugin_dev_summary =
  summary_branch :: "string \<rightharpoonup> plugin_dev_info"
  summary_pr :: "int \<rightharpoonup> plugin_dev_info"

subsection \<open>The remote store (plugins/aws)\<close>

text \<open>
  Modelled from the spec: the class \<^verbatim>\<open>S3Client\<close> of \<^verbatim>\<open>plugins/aws\<close> is not
  part of the sources at hand. The spec gives its operations as
  \<^verbatim>\<open>exists(key) -> bool\<close>, \<^verbatim>\<open>readJSON(key, default) -> T\<close>,
  \<^verbatim>\<open>writeJSON(key, value, tags?)\<close> and three uploads, over hierarchical string
  keys. The store is a map from keys to objects; an object is one of the JSON
  shapes the Report Stage writes, or an uploaded file. Remote operations are
  taken to complete: network failures are outside this model.
\<close>
datatype remote_object =
    JobRecord plugin_build_report string
  | HistoryObject json
  | PluginIndex plugin_dev_summary
  | DevIndex "string \<rightharpoonup> plugin_dev_info"
  | UploadedFile string

type_synonym store = "string \<rightharpoonup> remote_object"

text \<open>Modelled from the spec: \<^verbatim>\<open>exists(key) -> bool\<close> of the absent \<^verbatim>\<open>S3Client\<close>.\<close>
definition s3_exists :: "store \<Rightarrow> string \<Rightarrow> bool" where
  "s3_exists s key = (s key \<noteq> None)"

text \<open>
  Modelled from the spec: \<^verbatim>\<open>writeJSON(key, value, tags?)\<close> of the absent
  \<^verbatim>\<open>S3Client\<close>; the tags of a job record are kept in the object.
\<close>
definition s3_writeJSON :: "store \<Rightarrow> string \<Rightarrow> remote_object \<Rightarrow> store" where
  "s3_writeJSON s key v = s(key \<mapsto> v)"

text \<open>
  Modelled from the spec: \<^verbatim>\<open>readJSON(key, default) -> T\<close> of the absent
  \<^verbatim>\<open>S3Client\<close>, at the three types the Report Stage reads. The default is
  returned when the key is absent; an object of another shape than the one
  asked for is not a value of the caller's type, and the default stands for it
  as well.
\<close>
definition s3_readHistory :: "store \<Rightarrow> string \<Rightarrow> json \<Rightarrow> json" where
  "s3_readHistory s key d = (case s key of Some (HistoryObject h) \<Rightarrow> h | _ \<Rightarrow> d)"

definition s3_readPluginIndex :: "store \<Rightarrow> string \<Rightarrow> plugin_dev_summary \<Rightarrow> plugin_dev_summary" where
  "s3_readPluginIndex s key d = (case s key of Some (PluginIndex i) \<Rightarrow> i | _ \<Rightarrow> d)"

definition s3_readDevIndex ::
    "store \<Rightarrow> string \<Rightarrow> (string \<rightharpoonup> plugin_dev_info) \<Rightarrow> (string \<rightharpoonup> plugin_dev_info)" where
  "s3_readDevIndex s key d = (case s key of Some (DevIndex i) \<Rightarrow> i | _ \<Rightarrow> d)"

text \<open>
  Modelled from the spec: the uploads \<^verbatim>\<open>uploadLogo\<close>, \<^verbatim>\<open>uploadPackages\<close> and
  \<^verbatim>\<open>uploadTestFiles\<close> of the absent \<^verbatim>\<open>S3Client\<close>. An upload puts files into
  the store: the collaborator decides the keys and the content, the store
  keeps every other key as it is.
\<close>
fun s3_put_all :: "store \<Rightarrow> (string \<times> string) list \<Rightarrow> store" where
  "s3_put_all s [] = s"
| "s3_put_all s ((key, body) # rest) = s3_put_all (s(key \<mapsto> UploadedFile body)) rest"

subsection \<open>Report Stage: \<^verbatim>\<open>pluginReportRunner\<close>\<close>

text \<open>
  What the runner reads: the task option \<^verbatim>\<open>upload\<close>, the two files it loads
  and the values returned by the functions it imports from \<^verbatim>\<open>plugins/env\<close>,
  \<^verbatim>\<open>plugins/workflow\<close>, \<^verbatim>\<open>plugins/utils\<close> and \<^verbatim>\<open>plugins/types\<close>. The
  \<^verbatim>\<open>require\<close> of \<^verbatim>\<open>info.json\<close> throws when the file is missing (\<open>None\<close>);
  \<open>pluginJsonFile\<close> is the content of \<^verbatim>\<open>ci/dist/plugin.json\<close>, when the file can
  be loaded, as \<^verbatim>\<open>getPluginJson\<close> finds it. An upload of the
  \<^verbatim>\<open>S3Client\<close> is given by the files it puts, and \<^verbatim>\<open>uploadLogo\<close> also by the
  reference it returns.
\<close>
record report_env =
  cwd :: path
  upload :: bool
  packageInfoJson :: "json option"
  pluginJsonFile :: "plugin_meta option"
  otherManifestChecks :: "plugin_meta \<Rightarrow> error option"
  agregateWorkflowInfo :: json
  agregateCoverageInfo :: json
  agregateTestInfo :: json
  getCircleDownloadBaseURL :: string
  getGrafanaVersions :: json
  getPullRequestNumber :: "int option"
  getBuildNumber :: "int option"
  defaultPluginHistory :: json
  appendPluginHistory :: "plugin_build_report \<Rightarrow> plugin_dev_info \<Rightarrow> json \<Rightarrow> json"
  uploadLogo :: "plugin_info \<Rightarrow> path \<Rightarrow> string \<Rightarrow> string option \<times> (string \<times> string) list"
  uploadPackages :: "json \<Rightarrow> path \<Rightarrow> string \<Rightarrow> (string \<times> string) list"
  uploadTestFiles :: "json \<Rightarrow> path \<Rightarrow> string \<Rightarrow> (string \<times> string) list"

text \<open>
  Modelled from the spec: \<^verbatim>\<open>getPluginJson\<close> and \<^verbatim>\<open>validatePluginJson\<close> of
  \<^verbatim>\<open>config/utils/pluginValidation\<close> are not part of the sources at hand. The
  spec names the manifest reader, with a missing manifest fatal and the schema
  validation behind it. The validation of the repository rejects a manifest
  whose \<^verbatim>\<open>info.version\<close> is missing or empty (``Plugin info.version is missing
  in plugin.json'') and does not look at the build record; its other checks
  are given by the environment. A manifest with several defects gets the
  error of the other checks here.
\<close>
definition validatePluginJson :: "(plugin_meta \<Rightarrow> error option) \<Rightarrow> plugin_meta \<Rightarrow> error option" where
  "validatePluginJson others pluginJson =
     (case others pluginJson of
        Some e \<Rightarrow> Some e
      | None \<Rightarrow>
          (case info_version (meta_info pluginJson) of
             None \<Rightarrow> Some (InvalidPluginJson ''Plugin info.version is missing in plugin.json'')
           | Some v \<Rightarrow>
               if v = [] then Some (InvalidPluginJson ''Plugin info.version is missing in plugin.json'')
               else None))"

definition loadPluginJson ::
    "(plugin_meta \<Rightarrow> error option) \<Rightarrow> path \<Rightarrow> plugin_meta option \<Rightarrow> error + plugin_meta" where
  "loadPluginJson others file content =
     (case content of
        None \<Rightarrow> Inl (UnableToFindPluginJson file)
      | Some loaded \<Rightarrow>
          (case validatePluginJson others loaded of
             Some e \<Rightarrow> Inl e
           | None \<Rightarrow> Inr loaded))"

text \<open>Lines 323--326: the manifest as the Report Stage gets it.\<close>
definition pluginJson :: "report_env \<Rightarrow> error + plugin_meta" where
  "pluginJson env =
     loadPluginJson (otherManifestChecks env)
       (path_resolve (path_resolve (path_resolve (cwd env) ''ci'') ''dist'') ''plugin.json'')
       (pluginJsonFile env)"

text \<open>The operations of one run, in program order.\<close>
datatype event =
    WriteFile path plugin_build_report
  | NewS3Client
  | S3Exists string
  | S3WriteJSON string remote_object
  | S3ReadJSON string
  | S3UploadLogo string
  | S3UploadPackages string
  | S3UploadTestFiles string

text \<open>Lines 327--339: the report object.\<close>
definition buildReport :: "report_env \<Rightarrow> json \<Rightarrow> plugin_meta \<Rightarrow> plugin_build_report" where
  "buildReport env packageInfo pluginMeta =
     \<lparr> report_plugin = pluginMeta,
       report_packages = packageInfo,
       report_workflow = agregateWorkflowInfo env,
       report_coverage = agregateCoverageInfo env,
       report_tests = agregateTestInfo env,
       report_artifactsBaseURL = getCircleDownloadBaseURL env,
       report_grafanaVersion = getGrafanaVersions env,
       report_pullRequest =
         (if truthy_number (getPullRequestNumber env) then getPullRequestNumber env else None) \<rparr>"

text \<open>Lines 357--363: \<^verbatim>\<open>root\<close>, \<^verbatim>\<open>dirKey\<close> and \<^verbatim>\<open>jobKey\<close>.\<close>
definition rootKey :: "plugin_meta \<Rightarrow> string" where
  "rootKey pluginMeta = ''dev/'' @ meta_id pluginMeta"

definition dirKey :: "plugin_meta \<Rightarrow> build_info \<Rightarrow> int option \<Rightarrow> int option \<Rightarrow> string" where
  "dirKey pluginMeta build pr buildNumber =
     (if truthy_number pr
      then rootKey pluginMeta @ ''/pr/'' @ template_number pr @ ''/'' @ template_number buildNumber
      else rootKey pluginMeta @ ''/branch/'' @ or_unknown (build_branch build) @ ''/''
             @ template_number buildNumber)"

definition jobKey :: "plugin_meta \<Rightarrow> build_info \<Rightarrow> int option \<Rightarrow> int option \<Rightarrow> string" where
  "jobKey pluginMeta build pr buildNumber = dirKey pluginMeta build pr buildNumber @ ''/index.json''"

text \<open>Line 370: the tags of the job record.\<close>
definition tagging :: "plugin_meta \<Rightarrow> string" where
  "tagging pluginMeta =
     ''version='' @ or_unknown (info_version (meta_info pluginMeta)) @ ''&type='' @ meta_type pluginMeta"

text \<open>Lines 387--394: \<^verbatim>\<open>base\<close> and \<^verbatim>\<open>historyKey\<close>.\<close>
definition historyBase :: "plugin_meta \<Rightarrow> build_info \<Rightarrow> int option \<Rightarrow> string" where
  "historyBase pluginMeta build pr =
     (if truthy_number pr then rootKey pluginMeta @ ''/pr/'' @ template_number pr @ ''/''
      else rootKey pluginMeta @ ''/branch/'' @ or_unknown (build_branch build) @ ''/'')"

definition historyKey :: "plugin_meta \<Rightarrow> build_info \<Rightarrow> int option \<Rightarrow> string" where
  "historyKey pluginMeta build pr = historyBase pluginMeta build pr @ ''history.json''"

text \<open>
  Lines 388--392 assign \<^verbatim>\<open>number\<close> and \<^verbatim>\<open>pr\<close> on \<^verbatim>\<open>latest.build\<close>, which is the
  object \<^verbatim>\<open>pluginMeta.info.build\<close> itself: the build record of the manifest,
  and of the report that holds the manifest, changes with it.
\<close>
definition stampBuild :: "build_info \<Rightarrow> int option \<Rightarrow> int option \<Rightarrow> build_info" where
  "stampBuild build pr buildNumber =
     (if truthy_number pr then build\<lparr>build_number := buildNumber, build_pr := pr\<rparr>
      else build\<lparr>build_number := buildNumber\<rparr>)"

definition withBuild :: "plugin_build_report \<Rightarrow> build_info \<Rightarrow> plugin_build_report" where
  "withBuild report build =
     report\<lparr>report_plugin :=
       (report_plugin report)\<lparr>meta_info :=
         (meta_info (report_plugin report))\<lparr>info_build := Some build\<rparr>\<rparr>\<rparr>"

text \<open>Lines 379--385, after the assignments of lines 388--392.\<close>
definition latestInfo ::
    "plugin_meta \<Rightarrow> build_info \<Rightarrow> string option \<Rightarrow> int option \<Rightarrow> int option \<Rightarrow> plugin_dev_info" where
  "latestInfo pluginMeta build logo pr buildNumber =
     \<lparr> dev_pluginId = meta_id pluginMeta,
       dev_name = meta_name pluginMeta,
       dev_logo = logo,
       dev_build = stampBuild build pr buildNumber,
       dev_version = or_unknown (info_version (meta_info pluginMeta)) \<rparr>"

text \<open>Lines 419--423: the entry of this run in the per-plugin index.\<close>
definition updatePluginIndex ::
    "int option \<Rightarrow> string \<Rightarrow> plugin_dev_info \<Rightarrow> plugin_dev_summary \<Rightarrow> plugin_dev_summary" where
  "updatePluginIndex pr branch latest index =
     (case pr of
        None \<Rightarrow> index\<lparr>summary_branch := (summary_branch index)(branch \<mapsto> latest)\<rparr>
      | Some n \<Rightarrow>
          if n \<noteq> 0 then index\<lparr>summary_pr := (summary_pr index)(n \<mapsto> latest)\<rparr>
          else index\<lparr>summary_branch := (summary_branch index)(branch \<mapsto> latest)\<rparr>)"

definition emptyPluginIndex :: plugin_dev_summary where
  "emptyPluginIndex = \<lparr> summary_branch = Map.empty, summary_pr = Map.empty \<rparr>"

definition pluginIndexKey :: "plugin_meta \<Rightarrow> string" where
  "pluginIndexKey pluginMeta = rootKey pluginMeta @ ''/index.json''"

definition devIndexKey :: string where
  "devIndexKey = ''dev/index.json''"

text \<open>
  Lines 368--430: everything after the idempotency check. The two uploads of
  lines 404--412 are started without being awaited; their files are put here
  at the place of the call.
\<close>
definition publish ::
    "report_env \<Rightarrow> plugin_meta \<Rightarrow> build_info \<Rightarrow> plugin_build_report \<Rightarrow> json \<Rightarrow> store
       \<Rightarrow> store \<times> event list" where
  "publish env pluginMeta build report packageInfo s =
     (let ciDir = path_resolve (cwd env) ''ci'';
          packageDir = path_resolve ciDir ''packages'';
          pr = getPullRequestNumber env;
          buildNumber = getBuildNumber env;
          branch = or_unknown (build_branch build);
          root = rootKey pluginMeta;
          dirKey = dirKey pluginMeta build pr buildNumber;
          jobKey = jobKey pluginMeta build pr buildNumber;
          jobRecord = JobRecord report (tagging pluginMeta);
          s1 = s3_writeJSON s jobKey jobRecord;
          (logo, logoFiles) = uploadLogo env (meta_info pluginMeta) (path_resolve ciDir ''dist'') root;
          s2 = s3_put_all s1 logoFiles;
          latest = latestInfo pluginMeta build logo pr buildNumber;
          report' = withBuild report (stampBuild build pr buildNumber);
          historyKey = historyKey pluginMeta build pr;
          history = appendPluginHistory env report' latest
                      (s3_readHistory s2 historyKey (defaultPluginHistory env));
          s3 = s3_writeJSON s2 historyKey (HistoryObject history);
          s4 = (if upload env
                then s3_put_all
                       (s3_put_all s3 (uploadPackages env packageInfo packageDir (dirKey @ ''/packages'')))
                       (uploadTestFiles env (report_tests report') ciDir dirKey)
                else s3);
          uploads = (if upload env
                     then [S3UploadPackages (dirKey @ ''/packages''), S3UploadTestFiles dirKey]
                     else []);
          indexKey = pluginIndexKey pluginMeta;
          index = updatePluginIndex pr branch latest (s3_readPluginIndex s4 indexKey emptyPluginIndex);
          s5 = s3_writeJSON s4 indexKey (PluginIndex index);
          pluginIndex = (s3_readDevIndex s5 devIndexKey Map.empty)(meta_id pluginMeta \<mapsto> latest);
          s6 = s3_writeJSON s5 devIndexKey (DevIndex pluginIndex)
      in (s6,
          [S3WriteJSON jobKey jobRecord, S3UploadLogo root,
           S3ReadJSON historyKey, S3WriteJSON historyKey (HistoryObject history)]
          @ uploads
          @ [S3ReadJSON indexKey, S3WriteJSON indexKey (PluginIndex index),
             S3ReadJSON devIndexKey, S3WriteJSON devIndexKey (DevIndex pluginIndex)]))"

text \<open>Lines 318--431.\<close>
definition pluginReportRunner :: "report_env \<Rightarrow> store \<Rightarrow> (error + unit) \<times> store \<times> event list" where
  "pluginReportRunner env s =
     (let ciDir = path_resolve (cwd env) ''ci'';
          packageDir = path_resolve ciDir ''packages''
      in case packageInfoJson env of
           None \<Rightarrow> (Inl (CannotFindModule (path_resolve packageDir ''info.json'')), s, [])
         | Some packageInfo \<Rightarrow>
             (case pluginJson env of
                Inl e \<Rightarrow> (Inl e, s, [])
              | Inr pluginMeta \<Rightarrow>
                  (let report = buildReport env packageInfo pluginMeta;
                       started = [WriteFile (path_resolve ciDir ''report.json'') report, NewS3Client]
                   in case info_build (meta_info pluginMeta) of
                        None \<Rightarrow> (Inl MetadataMissingBuildInfo, s, started)
                      | Some build \<Rightarrow>
                          (let jobKey = jobKey pluginMeta build (getPullRequestNumber env)
                                          (getBuildNumber env)
                           in if s3_exists s jobKey
                              then (Inl (JobAlreadyRegistered jobKey), s, started @ [S3Exists jobKey])
                              else (case publish env pluginMeta build report packageInfo s of
                                      (s', events) \<Rightarrow>
                                        (Inr (), s', started @ [S3Exists jobKey] @ events))))))"

subsection \<open>Report Stage: what the uploads touch, and sample inputs\<close>

text \<open>The keys at which the uploads of a run put a file.\<close>
definition uploadedKeys :: "report_env \<Rightarrow> plugin_meta \<Rightarrow> build_info \<Rightarrow> json \<Rightarrow> string list" where
  "uploadedKeys env pluginMeta build packageInfo =
     (let ciDir = path_resolve (cwd env) ''ci'';
          dirKey = dirKey pluginMeta build (getPullRequestNumber env) (getBuildNumber env)
      in map fst (snd (uploadLogo env (meta_info pluginMeta) (path_resolve ciDir ''dist'')
                        (rootKey pluginMeta)))
         @ (if upload env
            then map fst (uploadPackages env packageInfo (path_resolve ciDir ''packages'')
                            (dirKey @ ''/packages''))
                 @ map fst (uploadTestFiles env (agregateTestInfo env) ciDir dirKey)
            else []))"

text \<open>Line 342: the local report file.\<close>
definition reportFile :: "report_env \<Rightarrow> path" where
  "reportFile env = path_resolve (path_resolve (cwd env) ''ci'') ''report.json''"

text \<open>Line 374: the reference \<^verbatim>\<open>uploadLogo\<close> returns.\<close>
definition logoOf :: "report_env \<Rightarrow> plugin_meta \<Rightarrow> string option" where
  "logoOf env pluginMeta =
     fst (uploadLogo env (meta_info pluginMeta)
            (path_resolve (path_resolve (cwd env) ''ci'') ''dist'') (rootKey pluginMeta))"

text \<open>Sample inputs of the Report Stage.\<close>
definition example_build :: build_info where
  "example_build =
     \<lparr> build_time = Some 1573000000, build_repo = Some ''https://example.org/my-panel.git'',
       build_branch = Some ''feature-x'', build_hash = Some ''def456'',
       build_number = None, build_pr = None \<rparr>"

definition example_meta :: plugin_meta where
  "example_meta =
     \<lparr> meta_id = ''my-panel'', meta_name = ''My Panel'', meta_type = ''panel'',
       meta_info = \<lparr> info_version = Some ''1.0.0'', info_build = Some example_build,
                     info_logos = ''{}'' \<rparr> \<rparr>"

definition example_env :: report_env where
  "example_env =
     \<lparr> cwd = ''/home/circleci/plugin'',
       upload = True,
       packageInfoJson = Some ''{}'',
       pluginJsonFile = Some example_meta,
       otherManifestChecks = (\<lambda>pluginJson. None),
       agregateWorkflowInfo = ''{}'',
       agregateCoverageInfo = ''[]'',
       agregateTestInfo = ''[]'',
       getCircleDownloadBaseURL = ''https://example.org/artifacts'',
       getGrafanaVersions = ''{}'',
       getPullRequestNumber = None,
       getBuildNumber = Some 17,
       defaultPluginHistory = ''{}'',
       appendPluginHistory = (\<lambda>report latest history. history @ dev_version latest),
       uploadLogo = (\<lambda>info local remote.
          (Some (remote @ ''/logo.svg''), [(remote @ ''/logo.svg'', ''<svg/>'')])),
       uploadPackages = (\<lambda>packages local remote. [(remote @ ''/my-panel-1.0.0.zip'', ''PK'')]),
       uploadTestFiles = (\<lambda>tests local remote. []) \<rparr>"

definition main_entry :: plugin_dev_info where
  "main_entry =
     \<lparr> dev_pluginId = ''my-panel'', dev_name = ''My Panel'', dev_logo = None,
       dev_build = example_build\<lparr>build_branch := Some ''main'', build_number := Some 11\<rparr>,
       dev_version = ''0.9.0'' \<rparr>"

definition feature_entry :: plugin_dev_info where
  "feature_entry =
     \<lparr> dev_pluginId = ''my-panel'', dev_name = ''My Panel'', dev_logo = None,
       dev_build = example_build\<lparr>build_number := Some 12\<rparr>,
       dev_version = ''0.9.1'' \<rparr>"

definition example_store :: store where
  "example_store =
     [''dev/my-panel/index.json'' \<mapsto>
        PluginIndex \<lparr> summary_branch = [''main'' \<mapsto> main_entry, ''feature-x'' \<mapsto> feature_entry],
                      summary_pr = Map.empty \<rparr>]"

definition pr_env :: report_env where
  "pr_env = example_env\<lparr>getPullRequestNumber := Some 42\<rparr>"

definition branchless_meta :: plugin_meta where
  "branchless_meta =
     example_meta\<lparr>meta_info :=
       \<lparr> info_version = Some ''1.0.0'', info_build = Some (example_build\<lparr>build_branch := None\<rparr>),
         info_logos = ''{}'' \<rparr>\<rparr>"

definition branchless_env :: report_env where
  "branchless_env = example_env\<lparr>pluginJsonFile := Some branchless_meta\<rparr>"

definition versionless_meta :: plugin_meta where
  "versionless_meta =
     example_meta\<lparr>meta_info :=
       \<lparr> info_version = None, info_build = Some example_build, info_logos = ''{}'' \<rparr>\<rparr>"

definition versionless_env :: report_env where
  "versionless_env = example_env\<lparr>pluginJsonFile := Some versionless_meta\<rparr>"

definition buildless_meta :: plugin_meta where
  "buildless_meta = example_meta\<lparr>meta_info := (meta_info example_meta)\<lparr>info_build := None\<rparr>\<rparr>"

definition buildless_env :: report_env where
  "buildless_env = example_env\<lparr>pluginJsonFile := Some buildless_meta\<rparr>"

definition pr_store :: store where
  "pr_store =
     [''dev/my-panel/index.json'' \<mapsto>
        PluginIndex \<lparr> summary_branch = [''main'' \<mapsto> main_entry],
                      summary_pr = [41 \<mapsto> feature_entry] \<rparr>]"

subsection \<open>Package Stage: \<^verbatim>\<open>packagePluginRunner\<close>\<close>

text \<open>
  A folder as the Package Stage sees it: every file and every directory below
  it, by its relative path, a directory before what it holds. A directory and
  a file are told apart, since \<^verbatim>\<open>cp\<close> treats a path that is a file on one
  side and a directory on the other differently from one that is a file on
  both.
\<close>
datatype entry = File string | Directory

type_synonym folder = "(string \<times> entry) list"

text \<open>
  The zip archive written by \<^verbatim>\<open>zip -r\<close>: its size, as \<^verbatim>\<open>fs.statSync\<close> reports
  it, and the entries it holds.
\<close>
record archive =
  archive_size :: nat
  archive_files :: folder

text \<open>
  What the runner reads. \<open>localDist\<close> is the folder \<^verbatim>\<open>dist\<close> of the working
  directory, when it exists; \<open>jobFolders\<close> is the listing of \<^verbatim>\<open>ci/jobs\<close> in the
  order \<^verbatim>\<open>readdirSync\<close> returns it, each job with its \<^verbatim>\<open>dist\<close> folder when it
  has one (\<open>None\<close> for the listing: \<^verbatim>\<open>ci/jobs\<close> does not exist);
  \<open>docsFolder\<close> is \<^verbatim>\<open>ci/docs\<close>. Whether \<^verbatim>\<open>cp -n\<close> exits with a failure status
  when it skips an existing file depends on the platform's \<^verbatim>\<open>cp\<close>:
  \<open>cpReportsSkipped\<close> (GNU \<^verbatim>\<open>cp\<close> 9.4 exits with 0 there). \<^verbatim>\<open>getPluginJson\<close> of \<^verbatim>\<open>config/utils/pluginValidation\<close>
  takes the folder it reads from and the path of the file, and returns the
  manifest or throws. The external program \<^verbatim>\<open>zip\<close> and the package-details
  helper are given by their results.
\<close>
record package_env =
  getCiFolder :: path
  getPluginId :: string
  localDist :: "folder option"
  jobFolders :: "(string \<times> folder option) list option"
  docsFolder :: "folder option"
  cpReportsSkipped :: bool
  getPluginJson :: "folder option \<Rightarrow> path \<Rightarrow> error + plugin_meta"
  getPluginBuildInfo :: build_info
  stringifyPluginJson :: "plugin_meta \<Rightarrow> string"
  zip_r :: "folder \<Rightarrow> archive"
  getPackageDetails :: "path \<Rightarrow> archive \<Rightarrow> json"

text \<open>The entries of a folder that may not exist.\<close>
definition filesOf :: "folder option \<Rightarrow> folder" where
  "filesOf d = (case d of None \<Rightarrow> [] | Some t \<Rightarrow> t)"

definition isFile :: "entry \<Rightarrow> bool" where
  "isFile e = (case e of File c \<Rightarrow> True | Directory \<Rightarrow> False)"

text \<open>A path that lies below a path at which the destination has a file.\<close>
definition blocked :: "folder \<Rightarrow> string \<Rightarrow> bool" where
  "blocked t p = list_ex (\<lambda>x. isFile (snd x) \<and> prefix (fst x @ ''/'') p) t"

text \<open>
  An entry of the source that \<^verbatim>\<open>cp -r\<close> cannot write: a directory where the
  destination has a file (``cannot overwrite non-directory with directory''),
  and whatever the source has below such a directory. The command exits with a
  failure status for it, with \<^verbatim>\<open>-n\<close> as without.
\<close>
definition obstructed :: "folder \<Rightarrow> string \<times> entry \<Rightarrow> bool" where
  "obstructed t x =
     (blocked t (fst x)
      \<or> (snd x = Directory \<and> (case map_of t (fst x) of Some e \<Rightarrow> isFile e | None \<Rightarrow> False)))"

text \<open>
  An entry of the source that \<^verbatim>\<open>cp -n\<close> skips: a file at a path where the
  destination has a file or a directory.
\<close>
definition skips :: "folder \<Rightarrow> string \<times> entry \<Rightarrow> bool" where
  "skips t x = (isFile (snd x) \<and> map_of t (fst x) \<noteq> None)"

text \<open>The entries of the source that are written: those at a path that is new and not blocked.\<close>
definition copied :: "folder \<Rightarrow> folder \<Rightarrow> folder" where
  "copied src t = filter (\<lambda>x. \<not> blocked t (fst x) \<and> map_of t (fst x) = None) src"

text \<open>
  \<^verbatim>\<open>cp -rn src/. dst\<close>: a destination that does not exist is created as a copy
  of the source; into an existing one every entry is copied whose path the
  destination does not have, a directory of both sides is merged, a file at a
  path the destination has is skipped, and a directory at the path of a file
  of the destination is an error. The first component tells whether the
  command exited with success: it fails on such an error, and when it reports
  the files it skipped. Failures of the file system itself are outside this
  model.
\<close>
definition cp_rn :: "bool \<Rightarrow> folder \<Rightarrow> folder option \<Rightarrow> bool \<times> folder option" where
  "cp_rn reports src dst =
     (case dst of
        None \<Rightarrow> (True, Some src)
      | Some t \<Rightarrow>
          (filter (obstructed t) src = [] \<and> \<not> (reports \<and> filter (skips t) src \<noteq> []),
           Some (t @ copied src t)))"

text \<open>Lines 155--164: the loop over the job folders.\<close>
fun mergeJobs ::
    "bool \<Rightarrow> (string \<times> folder option) list \<Rightarrow> folder option \<Rightarrow> error option \<times> folder option" where
  "mergeJobs reports [] dist = (None, dist)"
| "mergeJobs reports ((j, None) # dirs) dist = mergeJobs reports dirs dist"
| "mergeJobs reports ((j, Some contents) # dirs) dist =
     (case cp_rn reports contents dist of
        (True, dist') \<Rightarrow> mergeJobs reports dirs dist'
      | (False, dist') \<Rightarrow> (Some DuplicateFilesFoundInDistFolders, dist'))"

text \<open>
  Lines 136--164. After \<^verbatim>\<open>rimraf\<close> and \<^verbatim>\<open>mkdirSync\<close> of \<^verbatim>\<open>ci/dist\<close> the folder
  \<^verbatim>\<open>ci/dist/<pluginId>\<close> does not exist. The copy of the local folder is not
  inside a \<^verbatim>\<open>try\<close>: its failure is the failure of the command.
\<close>
definition mergeDist :: "package_env \<Rightarrow> error option \<times> folder option" where
  "mergeDist env =
     (case (case localDist env of
              None \<Rightarrow> (True, None)
            | Some d \<Rightarrow> cp_rn (cpReportsSkipped env) d None) of
        (False, dist) \<Rightarrow> (Some (CommandFailed ''cp''), dist)
      | (True, dist) \<Rightarrow>
          (case jobFolders env of
             None \<Rightarrow> (Some (NoSuchDirectory (path_resolve (getCiFolder env) ''jobs'')), dist)
           | Some dirs \<Rightarrow> mergeJobs (cpReportsSkipped env) dirs dist))"

text \<open>\<^verbatim>\<open>fs.writeFile\<close> on a file of a folder.\<close>
definition writeFile :: "folder \<Rightarrow> string \<Rightarrow> string \<Rightarrow> folder" where
  "writeFile t name body =
     (if name \<in> set (map fst t)
      then map (\<lambda>(p, e). if p = name then (p, File body) else (p, e)) t
      else t @ [(name, File body)])"

text \<open>String concatenation with an optional string: \<^verbatim>\<open>undefined\<close> is spelled out.\<close>
definition concat_string :: "string option \<Rightarrow> string" where
  "concat_string v = (case v of None \<Rightarrow> ''undefined'' | Some x \<Rightarrow> x)"

text \<open>What the stage leaves behind.\<close>
record package_output =
  out_dist :: folder
  out_packages :: "(string \<times> archive) list"
  out_info :: "json \<times> json option"
  out_testEnvPlugin :: folder
  out_customIni :: string

definition minimumZipSize :: nat where
  "minimumZipSize = 100"

text \<open>
  Lines 129--230. \<^verbatim>\<open>process.chdir(distDir)\<close> throws when the canonical tree does
  not exist. The write of \<^verbatim>\<open>plugin.json\<close> is started before \<^verbatim>\<open>zip\<close> runs and
  is taken to have landed by then.
\<close>
definition stampedPluginJson :: "package_env \<Rightarrow> plugin_meta \<Rightarrow> plugin_meta" where
  "stampedPluginJson env loaded =
     loaded\<lparr>meta_info := (meta_info loaded)\<lparr>info_build := Some (getPluginBuildInfo env)\<rparr>\<rparr>"

definition zipNameOf :: "plugin_meta \<Rightarrow> string" where
  "zipNameOf pluginInfo =
     meta_id pluginInfo @ ''-'' @ concat_string (info_version (meta_info pluginInfo)) @ ''.zip''"

definition docsZipNameOf :: "plugin_meta \<Rightarrow> string" where
  "docsZipNameOf pluginInfo =
     meta_id pluginInfo @ ''-'' @ concat_string (info_version (meta_info pluginInfo)) @ ''-docs.zip''"

definition distDirOf :: "package_env \<Rightarrow> path" where
  "distDirOf env = path_resolve (getCiFolder env) (''dist/'' @ getPluginId env)"

definition packagesDirOf :: "package_env \<Rightarrow> path" where
  "packagesDirOf env = path_resolve (getCiFolder env) ''packages''"

definition packagePluginRunner :: "package_env \<Rightarrow> error + package_output" where
  "packagePluginRunner env =
     (let packagesDir = packagesDirOf env;
          distDir = distDirOf env;
          grafanaEnvDir = path_resolve (getCiFolder env) ''grafana-test-env''
      in case mergeDist env of
           (Some e, dist) \<Rightarrow> Inl e
         | (None, dist) \<Rightarrow>
             (case getPluginJson env dist (path_resolve distDir ''plugin.json'') of
                Inl e \<Rightarrow> Inl e
              | Inr loaded \<Rightarrow>
                  (let pluginInfo = stampedPluginJson env loaded
                   in case dist of
                        None \<Rightarrow> Inl (NoSuchDirectory distDir)
                      | Some t \<Rightarrow>
                          (let dist' = writeFile t ''plugin.json'' (stringifyPluginJson env pluginInfo);
                               zipName = zipNameOf pluginInfo;
                               zipFile = path_resolve packagesDir zipName;
                               zipped = zip_r env dist'
                           in if archive_size zipped < minimumZipSize then Inl (InvalidZipFile zipFile)
                              else
                                (let docsName = docsZipNameOf pluginInfo;
                                     docsFile = path_resolve packagesDir docsName;
                                     docs = map_option (zip_r env) (docsFolder env)
                                 in Inr \<lparr> out_dist = dist',
                                          out_packages =
                                            (zipName, zipped)
                                            # (case docs of None \<Rightarrow> [] | Some z \<Rightarrow> [(docsName, z)]),
                                          out_info =
                                            (getPackageDetails env zipFile zipped,
                                             map_option (getPackageDetails env docsFile) docs),
                                          out_testEnvPlugin = archive_files zipped,
                                          out_customIni =
                                            ''# Autogenerated by @grafana/toolkit \<newline>[paths] \<newline>plugins = ''
                                            @ path_resolve grafanaEnvDir ''plugins''
                                            @ ''\<newline>\<newline>'' \<rparr>)))))"

text \<open>The contributions to the canonical tree, in the order of the merge.\<close>
fun jobDists :: "(string \<times> folder option) list \<Rightarrow> folder list" where
  "jobDists [] = []"
| "jobDists ((j, None) # dirs) = jobDists dirs"
| "jobDists ((j, Some contents) # dirs) = contents # jobDists dirs"

definition contributions :: "package_env \<Rightarrow> folder list" where
  "contributions env =
     (case localDist env of None \<Rightarrow> [] | Some d \<Rightarrow> [d])
     @ (case jobFolders env of None \<Rightarrow> [] | Some dirs \<Rightarrow> jobDists dirs)"

text \<open>
  An entry collides with a folder when the folder has something other than a
  directory in its way, or has anything at the path of the entry when the
  entry is a file: the two share a relative path, and not as two directories.
\<close>
definition collides :: "folder \<Rightarrow> string \<times> entry \<Rightarrow> bool" where
  "collides t x = (obstructed t x \<or> skips t x)"

definition apart :: "folder \<Rightarrow> folder \<Rightarrow> bool" where
  "apart c t = (filter (collides t) c = [])"

text \<open>No two contributions share a relative path, other than a directory of both.\<close>
fun pairwise_apart :: "folder list \<Rightarrow> bool" where
  "pairwise_apart [] = True"
| "pairwise_apart (c # cs) =
     (list_all (\<lambda>c'. filter (collides c) c' = []) cs \<and> pairwise_apart cs)"

text \<open>
  Modelled from the spec: \<^verbatim>\<open>getPluginJson\<close> of \<^verbatim>\<open>config/utils/pluginValidation\<close>
  is not part of the sources at hand. The spec: the manifest must exist before
  packaging, and a missing manifest file is fatal. The sample environments
  read the manifest with it; the content of an existing file is parsed by the
  function given.
\<close>
definition pluginJsonReader ::
    "(string \<Rightarrow> error + plugin_meta) \<Rightarrow> folder option \<Rightarrow> path \<Rightarrow> error + plugin_meta" where
  "pluginJsonReader parse folder file =
     (case map_of (filesOf folder) ''plugin.json'' of
        None \<Rightarrow> Inl (UnableToFindPluginJson file)
      | Some Directory \<Rightarrow> Inl (UnableToFindPluginJson file)
      | Some (File text) \<Rightarrow> parse text)"

text \<open>Sample inputs of the Package Stage.\<close>
definition sample_manifest :: plugin_meta where
  "sample_manifest =
     \<lparr> meta_id = ''my-panel'', meta_name = ''My Panel'', meta_type = ''panel'',
       meta_info = \<lparr> info_version = Some ''1.0.0'', info_build = None, info_logos = ''{}'' \<rparr> \<rparr>"

definition sample_package_env :: package_env where
  "sample_package_env =
     \<lparr> getCiFolder = ''/home/circleci/plugin/ci'',
       getPluginId = ''my-panel'',
       localDist = None,
       jobFolders = Some [(''build_backend'', Some [(''my-panel_linux_amd64'', File ''ELF'')]),
                          (''build_frontend'',
                           Some [(''plugin.json'', File ''{}''), (''module.js'', File ''frontend'')]),
                          (''build_docs'', None)],
       docsFolder = None,
       cpReportsSkipped = True,
       getPluginJson = pluginJsonReader (\<lambda>text. Inr sample_manifest),
       getPluginBuildInfo = example_build,
       stringifyPluginJson = (\<lambda>m. ''{ built }''),
       zip_r = (\<lambda>t. \<lparr> archive_size = 22 + 100 * length t, archive_files = t \<rparr>),
       getPackageDetails = (\<lambda>file z. file) \<rparr>"

definition conflict_package_env :: package_env where
  "conflict_package_env =
     sample_package_env\<lparr>localDist :=
        Some [(''module.js'', File ''local''), (''img'', Directory),
              (''img/logo.svg'', File ''<svg/>'')]\<rparr>"

text \<open>A directory of a later job at the path of a file of an earlier one, \<^verbatim>\<open>cp\<close> not reporting skips.\<close>
definition directory_over_file_env :: package_env where
  "directory_over_file_env =
     sample_package_env\<lparr>cpReportsSkipped := False,
        jobFolders := Some [(''build_backend'', Some [(''bin'', File ''ELF'')]),
                            (''build_frontend'',
                             Some [(''bin'', Directory), (''bin/tool'', File ''#!''),
                                   (''plugin.json'', File ''{}'')])]\<rparr>"

text \<open>A file of a later job at the path of a directory of an earlier one, \<^verbatim>\<open>cp\<close> not reporting skips.\<close>
definition file_over_directory_env :: package_env where
  "file_over_directory_env =
     sample_package_env\<lparr>cpReportsSkipped := False,
        jobFolders := Some [(''build_backend'',
                             Some [(''img'', Directory), (''img/logo.svg'', File ''<svg/>'')]),
                            (''build_frontend'',
                             Some [(''img'', File ''PNG''), (''plugin.json'', File ''{}'')])]\<rparr>"

definition empty_package_env :: package_env where
  "empty_package_env =
     sample_package_env\<lparr>jobFolders := Some [(''build_frontend'', None)]\<rparr>"

definition truncated_zip_env :: package_env where
  "truncated_zip_env =
     sample_package_env\<lparr>zip_r := (\<lambda>t. \<lparr> archive_size = 99, archive_files = t \<rparr>)\<rparr>"

subsection \<open>Build Stage: \<^verbatim>\<open>buildPluginRunner\<close>\<close>

text \<open>
  The part of the file system the stage touches: the \<^verbatim>\<open>Makefile\<close>, the folders
  \<^verbatim>\<open>dist\<close> and \<^verbatim>\<open>coverage\<close> of the working directory, and the same two
  folders and the stats file of the job folder.
\<close>
record workspace =
  makefileExists :: bool
  cwdDist :: "tree option"
  cwdCoverage :: "tree option"
  jobDist :: "tree option"
  jobCoverage :: "tree option"
  jobStats :: bool

text \<open>
  A build delegate runs in the working directory and ends with success or
  with an error, leaving the file system as it made it.
\<close>
type_synonym delegate = "workspace \<Rightarrow> error option \<times> workspace"

record build_env =
  pluginBuildRunner :: delegate
  makeBackendPluginCi :: delegate
  makefilePath :: path

text \<open>Lines 75--80: \<^verbatim>\<open>renameSync\<close> of each of the two folders that exists.\<close>
definition moveLocalFolders :: "workspace \<Rightarrow> workspace" where
  "moveLocalFolders ws =
     (let ws1 = (case cwdDist ws of
                   None \<Rightarrow> ws
                 | Some d \<Rightarrow> ws\<lparr>cwdDist := None, jobDist := Some d\<rparr>)
      in case cwdCoverage ws1 of
           None \<Rightarrow> ws1
         | Some c \<Rightarrow> ws1\<lparr>cwdCoverage := None, jobCoverage := Some c\<rparr>)"

definition writeJobStats :: "workspace \<Rightarrow> workspace" where
  "writeJobStats ws = ws\<lparr>jobStats := True\<rparr>"

text \<open>
  Lines 55--82. The result is the outcome of the stage, the file system when
  the stage returns, and the delegate that is still running then: the
  frontend build is awaited, \<^verbatim>\<open>make\<close> is started by \<^verbatim>\<open>execa\<close> and only its
  output stream is piped, so the statements after it run before the process
  has done its work.
\<close>
definition buildPluginRunner ::
    "bool \<Rightarrow> build_env \<Rightarrow> workspace \<Rightarrow> (error + unit) \<times> workspace \<times> delegate option" where
  "buildPluginRunner backend env ws =
     (let ws1 = ws\<lparr>jobDist := None, jobCoverage := None, jobStats := False\<rparr>
      in if backend
         then (if \<not> makefileExists ws1 then (Inl (MissingMakefile (makefilePath env)), ws1, None)
               else (Inr (), writeJobStats (moveLocalFolders ws1), Some (makeBackendPluginCi env)))
         else (case pluginBuildRunner env ws1 of
                 (Some e, ws2) \<Rightarrow> (Inl e, ws2, None)
               | (None, ws2) \<Rightarrow> (Inr (), writeJobStats (moveLocalFolders ws2), None)))"

text \<open>The file system once a delegate left running has ended.\<close>
definition delegateEnded :: "(error + unit) \<times> workspace \<times> delegate option \<Rightarrow> workspace" where
  "delegateEnded r =
     (case r of (outcome, ws, running) \<Rightarrow>
        (case running of None \<Rightarrow> ws | Some d \<Rightarrow> snd (d ws)))"

text \<open>Sample inputs of the Build Stage.\<close>
definition clean_workspace :: workspace where
  "clean_workspace =
     \<lparr> makefileExists = True, cwdDist = None, cwdCoverage = None,
       jobDist = None, jobCoverage = None, jobStats = False \<rparr>"

definition sample_build_env :: build_env where
  "sample_build_env =
     \<lparr> pluginBuildRunner = (\<lambda>ws. (None,
          ws\<lparr>cwdDist := Some [(''plugin.json'', ''{}''), (''module.js'', ''frontend'')],
             cwdCoverage := Some [(''lcov.info'', ''TN:'')]\<rparr>)),
       makeBackendPluginCi = (\<lambda>ws. (None,
          ws\<lparr>cwdDist := Some [(''my-panel_linux_amd64'', ''ELF'')],
             cwdCoverage := Some [(''backend.out'', ''mode: set'')]\<rparr>)),
       makefilePath = ''/home/circleci/plugin/Makefile'' \<rparr>"

definition failing_build_env :: build_env where
  "failing_build_env =
     sample_build_env\<lparr>pluginBuildRunner := (\<lambda>ws. (Some (CommandFailed ''webpack''),
        ws\<lparr>cwdDist := Some [(''plugin.json'', ''{}'')]\<rparr>))\<rparr>"

subsection \<open>Test Stage: \<^verbatim>\<open>testPluginRunner\<close>\<close>
























section \<open>Properties\<close>

subsection \<open>Report Stage\<close>

lemma s3_put_all_None:
  "s3_put_all s files key = None \<longleftrightarrow> s key = None \<and> key \<notin> fst ` set files"
proof (induction files arbitrary: s)
  case Nil
  show ?case by simp
next
  case (Cons f files)
  obtain k body where f: "f = (k, body)" by (cases f)
  show ?case unfolding f by (simp add: Cons.IH)
qed

lemma s3_put_all_other: "key \<notin> fst ` set files \<Longrightarrow> s3_put_all s files key = s key"
proof (induction files arbitrary: s)
  case Nil
  show ?case by simp
next
  case (Cons f files)
  obtain k body where f: "f = (k, body)" by (cases f)
  from Cons.prems show ?case unfolding f by (simp add: Cons.IH)
qed

lemma publish_keeps: "s key \<noteq> None \<Longrightarrow> fst (publish env m b r p s) key \<noteq> None"
  by (simp add: publish_def Let_def s3_writeJSON_def s3_put_all_None split: prod.splits del: not_None_eq)

lemma publish_job_exists:
  "fst (publish env m b r p s) (jobKey m b (getPullRequestNumber env) (getBuildNumber env)) \<noteq> None"
  by (simp add: publish_def Let_def s3_writeJSON_def s3_put_all_None split: prod.splits del: not_None_eq)

lemma runner_registered:
  assumes "packageInfoJson env = Some p" "pluginJson env = Inr m" "info_build (meta_info m) = Some b"
    and "s (jobKey m b (getPullRequestNumber env) (getBuildNumber env)) \<noteq> None"
  shows "pluginReportRunner env s =
     (Inl (JobAlreadyRegistered (jobKey m b (getPullRequestNumber env) (getBuildNumber env))), s,
      [WriteFile (path_resolve (path_resolve (cwd env) ''ci'') ''report.json'') (buildReport env p m),
       NewS3Client, S3Exists (jobKey m b (getPullRequestNumber env) (getBuildNumber env))])"
  using assms by (simp add: pluginReportRunner_def Let_def s3_exists_def)

lemma runner_success_store:
  assumes "pluginReportRunner env s = (Inr (), s', ev)"
  obtains p m b where "packageInfoJson env = Some p" "pluginJson env = Inr m"
     "info_build (meta_info m) = Some b"
     "\<not> s3_exists s (jobKey m b (getPullRequestNumber env) (getBuildNumber env))"
     "s' = fst (publish env m b (buildReport env p m) p s)"
  using assms
  by (auto simp: pluginReportRunner_def Let_def split: option.splits sum.splits if_splits prod.splits)

lemma root_pr_neq_index: "rootKey m @ ''/pr/'' @ x \<noteq> rootKey m @ ''/index.json''"
  by simp

lemma root_branch_neq_index: "rootKey m @ ''/branch/'' @ x \<noteq> rootKey m @ ''/index.json''"
  by simp

lemma jobKey_neq_pluginIndexKey: "jobKey m b pr n \<noteq> pluginIndexKey m"
  by (simp add: jobKey_def dirKey_def pluginIndexKey_def)

lemma historyKey_neq_pluginIndexKey: "historyKey m b pr \<noteq> pluginIndexKey m"
  by (simp add: historyKey_def historyBase_def pluginIndexKey_def)

lemma devIndexKey_neq_pluginIndexKey: "devIndexKey \<noteq> pluginIndexKey m"
proof
  assume "devIndexKey = pluginIndexKey m"
  then have "length devIndexKey = length (pluginIndexKey m)" by simp
  then show False by (simp add: devIndexKey_def pluginIndexKey_def rootKey_def)
qed

lemma runner_fresh:
  assumes "packageInfoJson env = Some p" "pluginJson env = Inr m" "info_build (meta_info m) = Some b"
    and "\<not> s3_exists s (jobKey m b (getPullRequestNumber env) (getBuildNumber env))"
  shows "pluginReportRunner env s =
     (Inr (), fst (publish env m b (buildReport env p m) p s),
      [WriteFile (reportFile env) (buildReport env p m), NewS3Client,
       S3Exists (jobKey m b (getPullRequestNumber env) (getBuildNumber env))]
      @ snd (publish env m b (buildReport env p m) p s))"
  using assms by (simp add: pluginReportRunner_def Let_def reportFile_def split: prod.splits)

lemma publish_events_job:
  "S3WriteJSON (jobKey m b (getPullRequestNumber env) (getBuildNumber env))
      (JobRecord r (tagging m)) \<in> set (snd (publish env m b r p s))"
  by (simp add: publish_def Let_def split: prod.splits)

lemma publish_events_history:
  "\<exists>h. S3WriteJSON (historyKey m b (getPullRequestNumber env)) (HistoryObject h)
      \<in> set (snd (publish env m b r p s))"
  by (simp add: publish_def Let_def split: prod.splits)

lemma publish_plugin_index:
  assumes "pluginIndexKey m \<notin> set (uploadedKeys env m b p)"
  shows "fst (publish env m b (buildReport env p m) p s) (pluginIndexKey m) =
     Some (PluginIndex (updatePluginIndex (getPullRequestNumber env) (or_unknown (build_branch b))
        (latestInfo m b (logoOf env m) (getPullRequestNumber env) (getBuildNumber env))
        (s3_readPluginIndex s (pluginIndexKey m) emptyPluginIndex)))"
proof -
  have neq: "jobKey m b (getPullRequestNumber env) (getBuildNumber env) \<noteq> pluginIndexKey m"
     "historyKey m b (getPullRequestNumber env) \<noteq> pluginIndexKey m"
     "devIndexKey \<noteq> pluginIndexKey m"
     "pluginIndexKey m \<noteq> jobKey m b (getPullRequestNumber env) (getBuildNumber env)"
     "pluginIndexKey m \<noteq> historyKey m b (getPullRequestNumber env)"
     "pluginIndexKey m \<noteq> devIndexKey"
    using jobKey_neq_pluginIndexKey historyKey_neq_pluginIndexKey devIndexKey_neq_pluginIndexKey
    by metis+
  obtain logo files where ul:
    "uploadLogo env (meta_info m) (path_resolve (path_resolve (cwd env) ''ci'') ''dist'') (rootKey m)
       = (logo, files)"
    by fastforce
  show ?thesis
    using assms neq
    by (simp add: publish_def Let_def uploadedKeys_def logoOf_def s3_writeJSON_def ul
        s3_put_all_other s3_readPluginIndex_def buildReport_def withBuild_def)
qed

lemma pluginJson_valid:
  assumes "pluginJson env = Inr m"
  shows "pluginJsonFile env = Some m"
    and "\<exists>v. info_version (meta_info m) = Some v \<and> v \<noteq> []"
  using assms
  by (auto simp: pluginJson_def loadPluginJson_def validatePluginJson_def
      split: option.splits if_splits)

lemma pluginJson_accepts:
  assumes "pluginJsonFile env = Some m" and "otherManifestChecks env m = None"
    and "info_version (meta_info m) = Some v" and "v \<noteq> []"
  shows "pluginJson env = Inr m"
  using assms by (simp add: pluginJson_def loadPluginJson_def validatePluginJson_def)

lemmas example_defs = example_env_def example_meta_def example_build_def example_store_def
  main_entry_def feature_entry_def

lemmas key_defs = jobKey_def dirKey_def rootKey_def historyKey_def historyBase_def
  pluginIndexKey_def devIndexKey_def truthy_number_def template_number_def js_number_def
  or_unknown_def tagging_def

text \<open>
  C9. When the manifest carries no build record, the Report Stage throws
  ``Metadata missing build info''. By then it has started the write of the
  local report file and constructed the client, and nothing else: the remote
  store is as it was, and no \<^verbatim>\<open>exists\<close>, \<^verbatim>\<open>writeJSON\<close>, \<^verbatim>\<open>readJSON\<close> or upload
  has been issued.
\<close>
theorem report_missing_build_info:
  assumes "packageInfoJson env = Some p" and "pluginJson env = Inr m"
    and "info_build (meta_info m) = None"
  shows "pluginReportRunner env s =
           (Inl MetadataMissingBuildInfo, s,
            [WriteFile (reportFile env) (buildReport env p m), NewS3Client])"
  using assms by (simp add: pluginReportRunner_def Let_def reportFile_def)

theorem report_missing_build_info_witness:
  "pluginReportRunner buildless_env example_store
   = (Inl MetadataMissingBuildInfo, example_store,
      [WriteFile ''/home/circleci/plugin/ci/report.json''
         (buildReport example_env ''{}''
            (example_meta\<lparr>meta_info := (meta_info example_meta)\<lparr>info_build := None\<rparr>\<rparr>)),
       NewS3Client])"
proof -
  have loaded: "packageInfoJson buildless_env = Some ''{}''"
      "pluginJson buildless_env = Inr buildless_meta"
      "info_build (meta_info buildless_meta) = None"
    by (simp_all add: buildless_env_def buildless_meta_def example_env_def example_meta_def
        pluginJson_def loadPluginJson_def validatePluginJson_def)
  show ?thesis
    using report_missing_build_info [OF loaded, of example_store]
    by (simp add: buildless_env_def buildless_meta_def example_env_def example_meta_def
        reportFile_def path_resolve_def buildReport_def)
qed

text \<open>
  C1. When an object exists at the job key, the run throws ``Job already
  registered'' with the store unchanged, its only remote operation being the
  \<^verbatim>\<open>exists\<close> check. Hence when the store is the one left by a successful run
  with the same plugin id, pull-request number (or branch), and build number,
  the second run fails in this way and the store, the record at the job key
  included, stays as the first run left it.
\<close>
theorem job_key_published_once:
  assumes "packageInfoJson env = Some p" and "pluginJson env = Inr m"
    and "info_build (meta_info m) = Some b"
  shows "(s3_exists s (jobKey m b (getPullRequestNumber env) (getBuildNumber env)) \<longrightarrow>
            pluginReportRunner env s =
              (Inl (JobAlreadyRegistered (jobKey m b (getPullRequestNumber env) (getBuildNumber env))),
               s,
               [WriteFile (reportFile env) (buildReport env p m), NewS3Client,
                S3Exists (jobKey m b (getPullRequestNumber env) (getBuildNumber env))]))
       \<and> (\<forall>env0 m0 b0 s0 events0.
            pluginReportRunner env0 s0 = (Inr (), s, events0)
            \<and> pluginJson env0 = Inr m0 \<and> info_build (meta_info m0) = Some b0
            \<and> meta_id m0 = meta_id m
            \<and> getPullRequestNumber env0 = getPullRequestNumber env
            \<and> getBuildNumber env0 = getBuildNumber env
            \<and> (truthy_number (getPullRequestNumber env)
                \<or> or_unknown (build_branch b0) = or_unknown (build_branch b))
            \<longrightarrow> pluginReportRunner env s =
                  (Inl (JobAlreadyRegistered (jobKey m b (getPullRequestNumber env) (getBuildNumber env))),
                   s,
                   [WriteFile (reportFile env) (buildReport env p m), NewS3Client,
                    S3Exists (jobKey m b (getPullRequestNumber env) (getBuildNumber env))]))"
proof (intro conjI allI impI)
  assume "s3_exists s (jobKey m b (getPullRequestNumber env) (getBuildNumber env))"
  then have "s (jobKey m b (getPullRequestNumber env) (getBuildNumber env)) \<noteq> None"
    by (simp add: s3_exists_def)
  with assms runner_registered [of env p m b s]
  show "pluginReportRunner env s =
      (Inl (JobAlreadyRegistered (jobKey m b (getPullRequestNumber env) (getBuildNumber env))), s,
       [WriteFile (reportFile env) (buildReport env p m), NewS3Client,
        S3Exists (jobKey m b (getPullRequestNumber env) (getBuildNumber env))])"
    by (simp add: reportFile_def)
next
  fix env0 m0 b0 s0 events0
  assume first: "pluginReportRunner env0 s0 = (Inr (), s, events0)
            \<and> pluginJson env0 = Inr m0 \<and> info_build (meta_info m0) = Some b0
            \<and> meta_id m0 = meta_id m
            \<and> getPullRequestNumber env0 = getPullRequestNumber env
            \<and> getBuildNumber env0 = getBuildNumber env
            \<and> (truthy_number (getPullRequestNumber env)
                \<or> or_unknown (build_branch b0) = or_unknown (build_branch b))"
  then have run: "pluginReportRunner env0 s0 = (Inr (), s, events0)" by simp
  from run obtain p' m' b' where loaded0: "pluginJson env0 = Inr m'" "info_build (meta_info m') = Some b'"
    and s: "s = fst (publish env0 m' b' (buildReport env0 p' m') p' s0)"
    by (rule runner_success_store)
  from loaded0 first have same: "m' = m0" "b' = b0" by simp_all
  have key: "jobKey m0 b0 (getPullRequestNumber env0) (getBuildNumber env0)
               = jobKey m b (getPullRequestNumber env) (getBuildNumber env)"
    using first by (auto simp: jobKey_def dirKey_def rootKey_def)
  have "s (jobKey m b (getPullRequestNumber env) (getBuildNumber env)) \<noteq> None"
    unfolding s same key [symmetric] by (rule publish_job_exists)
  with assms runner_registered [of env p m b s]
  show "pluginReportRunner env s =
      (Inl (JobAlreadyRegistered (jobKey m b (getPullRequestNumber env) (getBuildNumber env))), s,
       [WriteFile (reportFile env) (buildReport env p m), NewS3Client,
        S3Exists (jobKey m b (getPullRequestNumber env) (getBuildNumber env))])"
    by (simp add: reportFile_def)
qed

lemma example_loaded:
  "packageInfoJson example_env = Some ''{}''" "pluginJson example_env = Inr example_meta"
  "info_build (meta_info example_meta) = Some example_build"
  by (simp_all add: example_defs pluginJson_def loadPluginJson_def validatePluginJson_def)

lemma example_fresh:
  "\<not> s3_exists example_store
       (jobKey example_meta example_build (getPullRequestNumber example_env) (getBuildNumber example_env))"
  by (simp add: s3_exists_def example_defs key_defs)

lemma example_key:
  "jobKey example_meta example_build (getPullRequestNumber example_env) (getBuildNumber example_env)
     = ''dev/my-panel/branch/feature-x/17/index.json''"
  by (simp add: example_defs key_defs)

theorem job_key_published_once_witness:
  "fst (pluginReportRunner example_env example_store) = Inr ()
   \<and> pluginReportRunner example_env (fst (snd (pluginReportRunner example_env example_store)))
       = (Inl (JobAlreadyRegistered ''dev/my-panel/branch/feature-x/17/index.json''),
          fst (snd (pluginReportRunner example_env example_store)),
          [WriteFile ''/home/circleci/plugin/ci/report.json'' (buildReport example_env ''{}'' example_meta),
           NewS3Client, S3Exists ''dev/my-panel/branch/feature-x/17/index.json''])"
proof -
  let ?run = "pluginReportRunner example_env example_store"
  have ok: "fst ?run = Inr ()"
    using runner_fresh [of example_env "''{}''" example_meta example_build example_store]
      example_loaded example_fresh by simp
  then have first: "?run = (Inr (), fst (snd ?run), snd (snd ?run))"
    by (metis prod.collapse)
  have rfile: "reportFile example_env = ''/home/circleci/plugin/ci/report.json''"
    by (simp add: reportFile_def path_resolve_def example_env_def)
  have "pluginReportRunner example_env (fst (snd ?run)) =
      (Inl (JobAlreadyRegistered (jobKey example_meta example_build
              (getPullRequestNumber example_env) (getBuildNumber example_env))),
       fst (snd ?run),
       [WriteFile (reportFile example_env) (buildReport example_env ''{}'' example_meta), NewS3Client,
        S3Exists (jobKey example_meta example_build
              (getPullRequestNumber example_env) (getBuildNumber example_env))])"
    using job_key_published_once [of example_env "''{}''" example_meta example_build "fst (snd ?run)",
        THEN conjunct2, rule_format,
        of example_env example_store "snd (snd ?run)" example_meta example_build]
      first example_loaded by simp
  with ok show ?thesis by (simp add: example_key rfile)
qed

text \<open>
  C5. A run that publishes writes the report at the directory key followed by
  \<^verbatim>\<open>/index.json\<close> and the history at the base followed by \<^verbatim>\<open>history.json\<close>,
  both scoped by the pull request when there is one and by the branch
  otherwise. For plugin \<^verbatim>\<open>my-panel\<close>, pull request 42 and build number 17 the
  keys are \<^verbatim>\<open>dev/my-panel/pr/42/17/index.json\<close> and
  \<^verbatim>\<open>dev/my-panel/pr/42/history.json\<close>.
\<close>
theorem report_keys:
  assumes "packageInfoJson env = Some p" and "pluginJson env = Inr m"
    and "info_build (meta_info m) = Some b"
    and "\<not> s3_exists s (jobKey m b (getPullRequestNumber env) (getBuildNumber env))"
  shows "(\<exists>s' events history.
            pluginReportRunner env s = (Inr (), s', events)
            \<and> S3WriteJSON
                 ((if truthy_number (getPullRequestNumber env)
                   then ''dev/'' @ meta_id m @ ''/pr/'' @ template_number (getPullRequestNumber env)
                          @ ''/'' @ template_number (getBuildNumber env)
                   else ''dev/'' @ meta_id m @ ''/branch/'' @ or_unknown (build_branch b)
                          @ ''/'' @ template_number (getBuildNumber env)) @ ''/index.json'')
                 (JobRecord (buildReport env p m) (tagging m)) \<in> set events
            \<and> S3WriteJSON
                 ((if truthy_number (getPullRequestNumber env)
                   then ''dev/'' @ meta_id m @ ''/pr/'' @ template_number (getPullRequestNumber env) @ ''/''
                   else ''dev/'' @ meta_id m @ ''/branch/'' @ or_unknown (build_branch b) @ ''/'')
                  @ ''history.json'')
                 (HistoryObject history) \<in> set events)
       \<and> jobKey m b (getPullRequestNumber env) (getBuildNumber env)
           = dirKey m b (getPullRequestNumber env) (getBuildNumber env) @ ''/index.json''
       \<and> historyKey m b (getPullRequestNumber env)
           = historyBase m b (getPullRequestNumber env) @ ''history.json''
       \<and> jobKey (m\<lparr>meta_id := ''my-panel''\<rparr>) b (Some 42) (Some 17)
           = ''dev/my-panel/pr/42/17/index.json''
       \<and> historyKey (m\<lparr>meta_id := ''my-panel''\<rparr>) b (Some 42) = ''dev/my-panel/pr/42/history.json''"
proof -
  have run: "\<exists>s' events history.
            pluginReportRunner env s = (Inr (), s', events)
            \<and> S3WriteJSON (jobKey m b (getPullRequestNumber env) (getBuildNumber env))
                 (JobRecord (buildReport env p m) (tagging m)) \<in> set events
            \<and> S3WriteJSON (historyKey m b (getPullRequestNumber env)) (HistoryObject history)
                 \<in> set events"
    using runner_fresh [of env p m b s] assms
      publish_events_job [of m b env "buildReport env p m" p s]
      publish_events_history [of m b env "buildReport env p m" p s]
    by auto
  have scenario: "jobKey (m\<lparr>meta_id := ''my-panel''\<rparr>) b (Some 42) (Some 17)
           = ''dev/my-panel/pr/42/17/index.json''
       \<and> historyKey (m\<lparr>meta_id := ''my-panel''\<rparr>) b (Some 42) = ''dev/my-panel/pr/42/history.json''"
    by (simp add: key_defs)
  have keys: "jobKey m b (getPullRequestNumber env) (getBuildNumber env) =
        (if truthy_number (getPullRequestNumber env)
                   then ''dev/'' @ meta_id m @ ''/pr/'' @ template_number (getPullRequestNumber env)
                          @ ''/'' @ template_number (getBuildNumber env)
                   else ''dev/'' @ meta_id m @ ''/branch/'' @ or_unknown (build_branch b)
                          @ ''/'' @ template_number (getBuildNumber env)) @ ''/index.json''"
     "historyKey m b (getPullRequestNumber env) =
        (if truthy_number (getPullRequestNumber env)
                   then ''dev/'' @ meta_id m @ ''/pr/'' @ template_number (getPullRequestNumber env) @ ''/''
                   else ''dev/'' @ meta_id m @ ''/branch/'' @ or_unknown (build_branch b) @ ''/'')
                  @ ''history.json''"
    by (simp_all add: jobKey_def historyKey_def dirKey_def historyBase_def rootKey_def)
  show ?thesis
    using run scenario unfolding keys [symmetric]
    by (simp add: jobKey_def historyKey_def)
qed

theorem report_keys_witness:
  "\<exists>s' events history.
     pluginReportRunner pr_env example_store = (Inr (), s', events)
     \<and> S3WriteJSON ''dev/my-panel/pr/42/17/index.json''
          (JobRecord (buildReport pr_env ''{}'' example_meta) ''version=1.0.0&type=panel'') \<in> set events
     \<and> S3WriteJSON ''dev/my-panel/pr/42/history.json'' (HistoryObject history) \<in> set events"
proof -
  have loaded: "packageInfoJson pr_env = Some ''{}''" "pluginJson pr_env = Inr example_meta"
    by (simp_all add: pr_env_def example_env_def example_meta_def
        pluginJson_def loadPluginJson_def validatePluginJson_def)
  have fresh: "\<not> s3_exists example_store
       (jobKey example_meta example_build (getPullRequestNumber pr_env) (getBuildNumber pr_env))"
    by (simp add: s3_exists_def pr_env_def example_defs key_defs)
  have vals: "truthy_number (getPullRequestNumber pr_env)"
     "template_number (getPullRequestNumber pr_env) = ''42''"
     "template_number (getBuildNumber pr_env) = ''17''"
     "meta_id example_meta = ''my-panel''" "tagging example_meta = ''version=1.0.0&type=panel''"
    by (simp_all add: pr_env_def example_defs key_defs)
  show ?thesis
    using report_keys [of pr_env "''{}''" example_meta example_build example_store,
        OF loaded example_loaded(3) fresh, THEN conjunct1]
    by (simp add: vals)
qed

text \<open>
  C10, as the code has it. A build record without a branch does not make the
  Report Stage fail: a run whose job key is free publishes, and a branch run
  without a branch writes the job record at
  \<^verbatim>\<open>dev/<pluginId>/branch/unknown/<buildNumber>/index.json\<close>. A manifest
  without a version does make it fail: the manifest reader rejects it before
  the report is assembled, and nothing is written. Hence the version in the
  tags of a job record is the one of the manifest, never \<^verbatim>\<open>unknown\<close>.
\<close>
theorem report_unknown_branch:
  assumes "packageInfoJson env = Some p"
  shows "(\<forall>m b. pluginJson env = Inr m \<and> info_build (meta_info m) = Some b
              \<and> \<not> s3_exists s (jobKey m b (getPullRequestNumber env) (getBuildNumber env)) \<longrightarrow>
            (\<exists>s' events.
               pluginReportRunner env s = (Inr (), s', events)
               \<and> S3WriteJSON (jobKey m b (getPullRequestNumber env) (getBuildNumber env))
                    (JobRecord (buildReport env p m) (tagging m)) \<in> set events)
            \<and> (build_branch b = None \<and> \<not> truthy_number (getPullRequestNumber env) \<longrightarrow>
                 jobKey m b (getPullRequestNumber env) (getBuildNumber env)
                   = ''dev/'' @ meta_id m @ ''/branch/unknown/'' @ template_number (getBuildNumber env)
                       @ ''/index.json'')
            \<and> (\<exists>v. info_version (meta_info m) = Some v \<and> v \<noteq> []
                 \<and> tagging m = ''version='' @ v @ ''&type='' @ meta_type m))
       \<and> (\<forall>loaded. pluginJsonFile env = Some loaded
              \<and> (info_version (meta_info loaded) = None \<or> info_version (meta_info loaded) = Some [])
            \<longrightarrow> (\<exists>e. pluginReportRunner env s = (Inl e, s, [])
                   \<and> (otherManifestChecks env loaded = None \<longrightarrow>
                        e = InvalidPluginJson ''Plugin info.version is missing in plugin.json'')))"
proof -
  have publishes: "\<exists>s' events.
               pluginReportRunner env s = (Inr (), s', events)
               \<and> S3WriteJSON (jobKey m b (getPullRequestNumber env) (getBuildNumber env))
                    (JobRecord (buildReport env p m) (tagging m)) \<in> set events"
    if "pluginJson env = Inr m" and "info_build (meta_info m) = Some b"
      and "\<not> s3_exists s (jobKey m b (getPullRequestNumber env) (getBuildNumber env))"
    for m b
    using runner_fresh [of env p m b s] assms that
      publish_events_job [of m b env "buildReport env p m" p s]
    by auto
  have key: "build_branch b = None \<and> \<not> truthy_number (getPullRequestNumber env) \<longrightarrow>
                 jobKey m b (getPullRequestNumber env) (getBuildNumber env)
                   = ''dev/'' @ meta_id m @ ''/branch/unknown/'' @ template_number (getBuildNumber env)
                       @ ''/index.json''"
    for m and b :: build_info
    by (simp add: or_unknown_def jobKey_def dirKey_def rootKey_def)
  have tag: "\<exists>v. info_version (meta_info m) = Some v \<and> v \<noteq> []
                 \<and> tagging m = ''version='' @ v @ ''&type='' @ meta_type m"
    if "pluginJson env = Inr m" for m
  proof -
    from that pluginJson_valid(2) [of env m]
    obtain v where v: "info_version (meta_info m) = Some v" "v \<noteq> []" by blast
    then have "tagging m = ''version='' @ v @ ''&type='' @ meta_type m"
      by (simp add: tagging_def or_unknown_def)
    with v show ?thesis by blast
  qed
  have rejected: "\<exists>e. pluginReportRunner env s = (Inl e, s, [])
                   \<and> (otherManifestChecks env loaded = None \<longrightarrow>
                        e = InvalidPluginJson ''Plugin info.version is missing in plugin.json'')"
    if "pluginJsonFile env = Some loaded"
      and "info_version (meta_info loaded) = None \<or> info_version (meta_info loaded) = Some []"
    for loaded
  proof (cases "otherManifestChecks env loaded")
    case None
    with that have "pluginJson env
        = Inl (InvalidPluginJson ''Plugin info.version is missing in plugin.json'')"
      by (auto simp: pluginJson_def loadPluginJson_def validatePluginJson_def)
    with assms have "pluginReportRunner env s
        = (Inl (InvalidPluginJson ''Plugin info.version is missing in plugin.json''), s, [])"
      by (simp add: pluginReportRunner_def Let_def)
    then show ?thesis by blast
  next
    case (Some e)
    with that have "pluginJson env = Inl e"
      by (simp add: pluginJson_def loadPluginJson_def validatePluginJson_def)
    with assms have "pluginReportRunner env s = (Inl e, s, [])"
      by (simp add: pluginReportRunner_def Let_def)
    with Some show ?thesis by simp
  qed
  from publishes key tag rejected show ?thesis by blast
qed

theorem report_unknown_branch_witness:
  "(\<exists>s' events.
     pluginReportRunner branchless_env example_store = (Inr (), s', events)
     \<and> S3WriteJSON ''dev/my-panel/branch/unknown/17/index.json''
          (JobRecord (buildReport branchless_env ''{}'' branchless_meta) ''version=1.0.0&type=panel'')
          \<in> set events)
   \<and> (\<exists>e. pluginReportRunner versionless_env example_store = (Inl e, example_store, [])
         \<and> e = InvalidPluginJson ''Plugin info.version is missing in plugin.json'')"
proof
  let ?b = "example_build\<lparr>build_branch := None\<rparr>"
  have p: "packageInfoJson branchless_env = Some ''{}''"
    by (simp add: branchless_env_def example_env_def)
  have loaded: "pluginJson branchless_env = Inr branchless_meta"
      "info_build (meta_info branchless_meta) = Some ?b"
    by (simp_all add: branchless_env_def branchless_meta_def example_env_def example_meta_def
        pluginJson_def loadPluginJson_def validatePluginJson_def)
  have fresh: "\<not> s3_exists example_store
       (jobKey branchless_meta ?b (getPullRequestNumber branchless_env) (getBuildNumber branchless_env))"
    by (simp add: s3_exists_def branchless_env_def branchless_meta_def example_defs key_defs)
  have vals: "build_branch ?b = None"
     "\<not> truthy_number (getPullRequestNumber branchless_env)"
     "meta_type branchless_meta = ''panel''" "meta_id branchless_meta = ''my-panel''"
     "template_number (getBuildNumber branchless_env) = ''17''"
     "info_version (meta_info branchless_meta) = Some ''1.0.0''"
    by (simp_all add: branchless_env_def branchless_meta_def example_defs key_defs)
  show "\<exists>s' events.
     pluginReportRunner branchless_env example_store = (Inr (), s', events)
     \<and> S3WriteJSON ''dev/my-panel/branch/unknown/17/index.json''
          (JobRecord (buildReport branchless_env ''{}'' branchless_meta) ''version=1.0.0&type=panel'')
          \<in> set events"
    using report_unknown_branch [OF p, of example_store, THEN conjunct1, rule_format,
        of branchless_meta ?b] loaded fresh
    by (auto simp: vals)
next
  have p: "packageInfoJson versionless_env = Some ''{}''"
    by (simp add: versionless_env_def example_env_def)
  have f: "pluginJsonFile versionless_env = Some versionless_meta"
      "info_version (meta_info versionless_meta) = None"
      "otherManifestChecks versionless_env versionless_meta = None"
    by (simp_all add: versionless_env_def versionless_meta_def example_env_def)
  show "\<exists>e. pluginReportRunner versionless_env example_store = (Inl e, example_store, [])
         \<and> e = InvalidPluginJson ''Plugin info.version is missing in plugin.json''"
    using report_unknown_branch [OF p, of example_store, THEN conjunct2, rule_format,
        of versionless_meta] f
    by auto
qed

theorem report_version_counterexample:
  "pluginReportRunner versionless_env example_store
     = (Inl (InvalidPluginJson ''Plugin info.version is missing in plugin.json''), example_store, [])"
  by (simp add: pluginReportRunner_def Let_def versionless_env_def versionless_meta_def
      example_env_def example_meta_def pluginJson_def loadPluginJson_def validatePluginJson_def)

text \<open>
  C7. A run that publishes, and whose uploads put no file at the key of the
  per-plugin index, leaves at that key the index it read with one entry
  replaced: the entry of the current branch for a branch run, of the current
  pull request for a pull-request run. Every other branch entry and every
  other pull-request entry is the one of the prior index. With entries for
  \<^verbatim>\<open>main\<close> and \<^verbatim>\<open>feature-x\<close>, a run for \<^verbatim>\<open>feature-x\<close> keeps the entry of \<^verbatim>\<open>main\<close>.
\<close>
theorem plugin_index_update_frame:
  assumes "packageInfoJson env = Some p" and "pluginJson env = Inr m"
    and "info_build (meta_info m) = Some b"
    and "\<not> s3_exists s (jobKey m b (getPullRequestNumber env) (getBuildNumber env))"
    and "pluginIndexKey m \<notin> set (uploadedKeys env m b p)"
  shows "\<exists>s' events index'.
           pluginReportRunner env s = (Inr (), s', events)
           \<and> s' (pluginIndexKey m) = Some (PluginIndex index')
           \<and> (case getPullRequestNumber env of
                 None \<Rightarrow>
                   summary_branch index' (or_unknown (build_branch b))
                     = Some (latestInfo m b (logoOf env m) None (getBuildNumber env))
                   \<and> (\<forall>k. k \<noteq> or_unknown (build_branch b) \<longrightarrow>
                         summary_branch index' k =
                           summary_branch (s3_readPluginIndex s (pluginIndexKey m) emptyPluginIndex) k)
                   \<and> summary_pr index' = summary_pr (s3_readPluginIndex s (pluginIndexKey m) emptyPluginIndex)
               | Some n \<Rightarrow>
                   if n \<noteq> 0
                   then summary_pr index' n
                          = Some (latestInfo m b (logoOf env m) (Some n) (getBuildNumber env))
                        \<and> (\<forall>k. k \<noteq> n \<longrightarrow>
                             summary_pr index' k =
                               summary_pr (s3_readPluginIndex s (pluginIndexKey m) emptyPluginIndex) k)
                        \<and> summary_branch index'
                            = summary_branch (s3_readPluginIndex s (pluginIndexKey m) emptyPluginIndex)
                   else summary_branch index' (or_unknown (build_branch b))
                          = Some (latestInfo m b (logoOf env m) (Some n) (getBuildNumber env))
                        \<and> (\<forall>k. k \<noteq> or_unknown (build_branch b) \<longrightarrow>
                             summary_branch index' k =
                               summary_branch (s3_readPluginIndex s (pluginIndexKey m) emptyPluginIndex) k)
                        \<and> summary_pr index'
                            = summary_pr (s3_readPluginIndex s (pluginIndexKey m) emptyPluginIndex))"
proof -
  let ?index' = "updatePluginIndex (getPullRequestNumber env) (or_unknown (build_branch b))
        (latestInfo m b (logoOf env m) (getPullRequestNumber env) (getBuildNumber env))
        (s3_readPluginIndex s (pluginIndexKey m) emptyPluginIndex)"
  have run: "pluginReportRunner env s =
     (Inr (), fst (publish env m b (buildReport env p m) p s),
      [WriteFile (reportFile env) (buildReport env p m), NewS3Client,
       S3Exists (jobKey m b (getPullRequestNumber env) (getBuildNumber env))]
      @ snd (publish env m b (buildReport env p m) p s))"
    using assms(1-4) by (rule runner_fresh)
  have stored: "fst (publish env m b (buildReport env p m) p s) (pluginIndexKey m)
      = Some (PluginIndex ?index')"
    using assms(5) by (rule publish_plugin_index)
  have frame: "case getPullRequestNumber env of
                 None \<Rightarrow>
                   summary_branch ?index' (or_unknown (build_branch b))
                     = Some (latestInfo m b (logoOf env m) None (getBuildNumber env))
                   \<and> (\<forall>k. k \<noteq> or_unknown (build_branch b) \<longrightarrow>
                         summary_branch ?index' k =
                           summary_branch (s3_readPluginIndex s (pluginIndexKey m) emptyPluginIndex) k)
                   \<and> summary_pr ?index' = summary_pr (s3_readPluginIndex s (pluginIndexKey m) emptyPluginIndex)
               | Some n \<Rightarrow>
                   if n \<noteq> 0
                   then summary_pr ?index' n
                          = Some (latestInfo m b (logoOf env m) (Some n) (getBuildNumber env))
                        \<and> (\<forall>k. k \<noteq> n \<longrightarrow>
                             summary_pr ?index' k =
                               summary_pr (s3_readPluginIndex s (pluginIndexKey m) emptyPluginIndex) k)
                        \<and> summary_branch ?index'
                            = summary_branch (s3_readPluginIndex s (pluginIndexKey m) emptyPluginIndex)
                   else summary_branch ?index' (or_unknown (build_branch b))
                          = Some (latestInfo m b (logoOf env m) (Some n) (getBuildNumber env))
                        \<and> (\<forall>k. k \<noteq> or_unknown (build_branch b) \<longrightarrow>
                             summary_branch ?index' k =
                               summary_branch (s3_readPluginIndex s (pluginIndexKey m) emptyPluginIndex) k)
                        \<and> summary_pr ?index'
                            = summary_pr (s3_readPluginIndex s (pluginIndexKey m) emptyPluginIndex)"
    by (simp add: updatePluginIndex_def split: option.splits)
  from run stored frame show ?thesis by blast
qed

theorem plugin_index_update_frame_witness:
  "(\<exists>s' events index'.
      pluginReportRunner example_env example_store = (Inr (), s', events)
      \<and> s' ''dev/my-panel/index.json'' = Some (PluginIndex index')
      \<and> summary_branch index' ''main'' = Some main_entry
      \<and> summary_branch index' ''feature-x''
          = Some (latestInfo example_meta example_build (Some ''dev/my-panel/logo.svg'') None (Some 17))
      \<and> summary_pr index' = Map.empty)
   \<and> (\<exists>s' events index'.
      pluginReportRunner pr_env pr_store = (Inr (), s', events)
      \<and> s' ''dev/my-panel/index.json'' = Some (PluginIndex index')
      \<and> summary_branch index' ''main'' = Some main_entry
      \<and> summary_pr index' 41 = Some feature_entry
      \<and> summary_pr index' 42
          = Some (latestInfo example_meta example_build (Some ''dev/my-panel/logo.svg'') (Some 42) (Some 17)))"
proof
  have avoid: "pluginIndexKey example_meta \<notin> set (uploadedKeys example_env example_meta example_build ''{}'')"
    by (simp add: uploadedKeys_def example_defs key_defs path_resolve_def)
  have vals: "getPullRequestNumber example_env = None" "getBuildNumber example_env = Some 17"
    "or_unknown (build_branch example_build) = ''feature-x''"
    "pluginIndexKey example_meta = ''dev/my-panel/index.json''"
    "logoOf example_env example_meta = Some ''dev/my-panel/logo.svg''"
    "s3_readPluginIndex example_store ''dev/my-panel/index.json'' emptyPluginIndex
      = \<lparr> summary_branch = [''main'' \<mapsto> main_entry, ''feature-x'' \<mapsto> feature_entry],
                      summary_pr = Map.empty \<rparr>"
    by (simp_all add: example_defs key_defs logoOf_def s3_readPluginIndex_def)
  show "\<exists>s' events index'.
      pluginReportRunner example_env example_store = (Inr (), s', events)
      \<and> s' ''dev/my-panel/index.json'' = Some (PluginIndex index')
      \<and> summary_branch index' ''main'' = Some main_entry
      \<and> summary_branch index' ''feature-x''
          = Some (latestInfo example_meta example_build (Some ''dev/my-panel/logo.svg'') None (Some 17))
      \<and> summary_pr index' = Map.empty"
    using plugin_index_update_frame [of example_env "''{}''" example_meta example_build example_store,
        OF example_loaded example_fresh avoid]
    unfolding vals by fastforce
next
  have loaded: "packageInfoJson pr_env = Some ''{}''" "pluginJson pr_env = Inr example_meta"
    by (simp_all add: pr_env_def example_env_def example_meta_def
        pluginJson_def loadPluginJson_def validatePluginJson_def)
  have fresh: "\<not> s3_exists pr_store
       (jobKey example_meta example_build (getPullRequestNumber pr_env) (getBuildNumber pr_env))"
    by (simp add: s3_exists_def pr_env_def pr_store_def example_defs key_defs)
  have avoid: "pluginIndexKey example_meta \<notin> set (uploadedKeys pr_env example_meta example_build ''{}'')"
    by (simp add: uploadedKeys_def pr_env_def example_defs key_defs path_resolve_def)
  have vals: "getPullRequestNumber pr_env = Some 42" "getBuildNumber pr_env = Some 17"
    "pluginIndexKey example_meta = ''dev/my-panel/index.json''"
    "logoOf pr_env example_meta = Some ''dev/my-panel/logo.svg''"
    "s3_readPluginIndex pr_store ''dev/my-panel/index.json'' emptyPluginIndex
      = \<lparr> summary_branch = [''main'' \<mapsto> main_entry], summary_pr = [41 \<mapsto> feature_entry] \<rparr>"
    by (simp_all add: pr_env_def pr_store_def example_defs key_defs logoOf_def s3_readPluginIndex_def)
  show "\<exists>s' events index'.
      pluginReportRunner pr_env pr_store = (Inr (), s', events)
      \<and> s' ''dev/my-panel/index.json'' = Some (PluginIndex index')
      \<and> summary_branch index' ''main'' = Some main_entry
      \<and> summary_pr index' 41 = Some feature_entry
      \<and> summary_pr index' 42
          = Some (latestInfo example_meta example_build (Some ''dev/my-panel/logo.svg'') (Some 42) (Some 17))"
    using plugin_index_update_frame [of pr_env "''{}''" example_meta example_build pr_store,
        OF loaded example_loaded(3) fresh avoid]
    unfolding vals by fastforce
qed

subsection \<open>Package Stage\<close>

lemma blocked_Nil [simp]: "blocked [] p = False"
  by (simp add: blocked_def)

lemma blocked_append: "blocked (t @ u) p = (blocked t p \<or> blocked u p)"
  by (simp add: blocked_def)

lemma blocked_iff: "blocked t p \<longleftrightarrow> (\<exists>x \<in> set t. isFile (snd x) \<and> prefix (fst x @ ''/'') p)"
  by (simp add: blocked_def list_ex_iff)

lemma collides_Nil [simp]: "collides [] x = False"
  by (simp add: collides_def obstructed_def skips_def)

lemma map_of_filter_path:
  "map_of (filter (\<lambda>x. Q (fst x)) c) p = (if Q p then map_of c p else None)"
  by (induction c) auto

lemma map_of_copied:
  "map_of (copied src t) p =
     (if \<not> blocked t p \<and> map_of t p = None then map_of src p else None)"
  unfolding copied_def
  using map_of_filter_path [of "\<lambda>q. \<not> blocked t q \<and> map_of t q = None" src p]
  by simp

lemma cp_rn_files: "filesOf (snd (cp_rn r src dst)) = filesOf dst @ copied src (filesOf dst)"
  by (cases dst) (simp_all add: cp_rn_def filesOf_def copied_def)

lemma cp_rn_ok:
  "fst (cp_rn r src dst) =
     (filter (obstructed (filesOf dst)) src = []
      \<and> \<not> (r \<and> filter (skips (filesOf dst)) src \<noteq> []))"
  by (cases dst) (simp_all add: cp_rn_def filesOf_def obstructed_def skips_def)

lemma cp_rn_keeps:
  "map_of t p = Some e \<Longrightarrow> map_of (filesOf (snd (cp_rn r src (Some t)))) p = Some e"
  unfolding cp_rn_files by (simp add: filesOf_def map_add_def)

lemma copied_sub: "map_of (t @ copied src t) \<subseteq>\<^sub>m map_of (t @ src)"
  unfolding map_le_def
  by (auto simp: map_of_copied map_add_def split: option.splits if_splits)

lemma copied_unobstructed:
  assumes "filter (obstructed t) src = []"
  shows "map_of (t @ copied src t) = map_of (t @ src)"
proof
  fix p
  show "map_of (t @ copied src t) p = map_of (t @ src) p"
  proof (cases "map_of src p")
    case None
    then show ?thesis by (simp add: map_of_copied map_add_def split: option.splits)
  next
    case (Some e)
    then have "(p, e) \<in> set src" by (rule map_of_SomeD)
    with assms have "\<not> obstructed t (p, e)" by (auto simp: filter_empty_conv)
    then have "\<not> blocked t p" by (simp add: obstructed_def)
    with Some show ?thesis by (simp add: map_of_copied map_add_def split: option.splits)
  qed
qed

lemma apartD: "apart c t \<Longrightarrow> x \<in> set c \<Longrightarrow> \<not> collides t x"
  by (auto simp: apart_def filter_empty_conv)

lemma apart_file:
  assumes "apart c t" and "(p, e) \<in> set c" and "isFile e"
  shows "\<not> blocked t p" and "map_of t p = None"
  using apartD [OF assms(1,2)] assms(3)
  by (auto simp: collides_def obstructed_def skips_def)

lemma apart_shared:
  assumes "apart c t" and "(p, e) \<in> set c" and "map_of t p = Some e'"
  shows "e = Directory" and "e' = Directory"
  using apartD [OF assms(1,2)] assms(3)
  by (cases e; cases e'; simp add: collides_def obstructed_def skips_def isFile_def)+

lemma blocked_copied:
  assumes "apart c t"
  shows "blocked (copied c t) p = blocked c p"
proof -
  have "x \<in> set (copied c t)" if "x \<in> set c" and "isFile (snd x)" for x
    using apart_file [OF assms, of "fst x" "snd x"] that by (simp add: copied_def)
  moreover have "x \<in> set c" if "x \<in> set (copied c t)" for x
    using that by (simp add: copied_def)
  ultimately show ?thesis unfolding blocked_iff by blast
qed

lemma collides_merged:
  assumes "apart c t"
  shows "collides (t @ copied c t) x \<longleftrightarrow> collides t x \<or> collides c x"
proof -
  obtain p e where x: "x = (p, e)" by (cases x)
  have b: "blocked (t @ copied c t) p = (blocked t p \<or> blocked c p)"
    by (simp add: blocked_append blocked_copied [OF assms])
  show ?thesis
  proof (cases "map_of t p")
    case None
    show ?thesis
    proof (cases "blocked t p")
      case True
      then show ?thesis by (simp add: x collides_def obstructed_def b)
    next
      case False
      with None have "map_of (t @ copied c t) p = map_of c p"
        by (simp add: map_of_copied map_add_def split: option.splits)
      with None False show ?thesis
        by (simp add: x collides_def obstructed_def skips_def b)
    qed
  next
    case (Some e')
    then have m: "map_of (t @ copied c t) p = Some e'"
      by (simp add: map_add_def)
    show ?thesis
    proof (cases "isFile e'")
      case True
      with Some m show ?thesis
        by (cases e) (simp_all add: x collides_def obstructed_def skips_def isFile_def)
    next
      case False
      then have e': "e' = Directory" by (cases e') (simp_all add: isFile_def)
      have c: "map_of c p = None \<or> map_of c p = Some Directory"
      proof (cases "map_of c p")
        case None
        then show ?thesis by simp
      next
        case (Some e'')
        then have "(p, e'') \<in> set c" by (rule map_of_SomeD)
        from apart_shared(1) [OF assms this \<open>map_of t p = Some e'\<close>] Some show ?thesis by simp
      qed
      from c Some m e' show ?thesis
        by (cases e) (auto simp: x collides_def obstructed_def skips_def isFile_def b)
    qed
  qed
qed

lemma merged_union:
  assumes "apart c t"
  shows "set (t @ copied c t) = set t \<union> set c"
proof -
  have "x \<in> set t \<union> set (copied c t)" if "x \<in> set c" for x
  proof (cases "map_of t (fst x)")
    case None
    moreover from apartD [OF assms that] have "\<not> blocked t (fst x)"
      by (simp add: collides_def obstructed_def)
    ultimately show ?thesis using that by (simp add: copied_def)
  next
    case (Some e')
    from that have "(fst x, snd x) \<in> set c" by simp
    from apart_shared [OF assms this Some]
    have "snd x = Directory" "e' = Directory" by simp_all
    with Some have "(fst x, snd x) \<in> set t" by (auto dest: map_of_SomeD)
    then show ?thesis by simp
  qed
  moreover have "set (copied c t) \<subseteq> set c" by (auto simp: copied_def)
  ultimately show ?thesis by auto
qed

lemma pairwise_apart_merged:
  assumes "apart c t"
  shows "pairwise_apart ((t @ copied c t) # cs) \<longleftrightarrow> pairwise_apart (t # c # cs)"
proof -
  have "filter (collides (t @ copied c t)) c' = []
          \<longleftrightarrow> filter (collides t) c' = [] \<and> filter (collides c) c' = []" for c'
    by (auto simp: filter_empty_conv collides_merged [OF assms])
  with assms show ?thesis by (auto simp: list_all_iff apart_def)
qed


lemma apart_iff:
  "apart c t \<longleftrightarrow> filter (obstructed t) c = [] \<and> filter (skips t) c = []"
  by (auto simp: apart_def collides_def filter_empty_conv)

lemma pairwise_apart_Cons2:
  "pairwise_apart (t # c # cs) \<Longrightarrow> apart c t"
  by (simp add: apart_def)

lemma mergeJobs_step:
  assumes "cp_rn r contents d = (ok, d')"
  shows "mergeJobs r ((j, Some contents) # dirs) d =
           (if ok then mergeJobs r dirs d' else (Some DuplicateFilesFoundInDistFolders, d'))"
  using assms by (cases ok) simp_all

lemma mergeJobs_first_wins:
  "map_of (filesOf (snd (mergeJobs r dirs d))) \<subseteq>\<^sub>m map_of (filesOf d @ concat (jobDists dirs))"
proof (induction r dirs d rule: mergeJobs.induct)
  case (1 reports dist)
  show ?case by simp
next
  case (2 reports j dirs dist)
  then show ?case by simp
next
  case (3 reports j contents dirs dist)
  obtain ok dist' where cp: "cp_rn reports contents dist = (ok, dist')" by fastforce
  note step = mergeJobs_step [OF cp, of j dirs]
  have f: "filesOf dist' = filesOf dist @ copied contents (filesOf dist)"
    using cp_rn_files [of reports contents dist] cp by simp
  show ?case
  proof (cases ok)
    case True
    with cp_rn_ok [of reports contents dist] cp
    have "filter (obstructed (filesOf dist)) contents = []" by simp
    then have m: "map_of (filesOf dist') = map_of (filesOf dist @ contents)"
      unfolding f by (rule copied_unobstructed)
    from "3.IH" [of ok dist'] cp True
    have "map_of (filesOf (snd (mergeJobs reports dirs dist')))
            \<subseteq>\<^sub>m map_of (filesOf dist' @ concat (jobDists dirs))" by simp
    then show ?thesis unfolding step using True m by simp
  next
    case False
    have "map_of (filesOf dist') \<subseteq>\<^sub>m map_of (filesOf dist @ contents)"
      unfolding f by (rule copied_sub)
    also have "map_of (filesOf dist @ contents)
                 \<subseteq>\<^sub>m map_of (filesOf dist @ concat (jobDists ((j, Some contents) # dirs)))"
      using map_le_map_add [of "map_of (filesOf dist @ contents)" "map_of (concat (jobDists dirs))"]
      by simp
    finally show ?thesis unfolding step using False by simp
  qed
qed

lemma mergeJobs_success:
  "fst (mergeJobs r dirs d) = None \<Longrightarrow>
     map_of (filesOf (snd (mergeJobs r dirs d))) = map_of (filesOf d @ concat (jobDists dirs))"
proof (induction r dirs d rule: mergeJobs.induct)
  case (1 reports dist)
  show ?case by simp
next
  case (2 reports j dirs dist)
  then show ?case by simp
next
  case (3 reports j contents dirs dist)
  obtain ok dist' where cp: "cp_rn reports contents dist = (ok, dist')" by fastforce
  note step = mergeJobs_step [OF cp, of j dirs]
  have f: "filesOf dist' = filesOf dist @ copied contents (filesOf dist)"
    using cp_rn_files [of reports contents dist] cp by simp
  from "3.prems" have ok: ok unfolding step by (cases ok) simp_all
  with cp_rn_ok [of reports contents dist] cp
  have "filter (obstructed (filesOf dist)) contents = []" by simp
  then have m: "map_of (filesOf dist') = map_of (filesOf dist @ contents)"
    unfolding f by (rule copied_unobstructed)
  from "3.prems" have "fst (mergeJobs reports dirs dist') = None" unfolding step using ok by simp
  with "3.IH" [of ok dist'] cp ok
  have "map_of (filesOf (snd (mergeJobs reports dirs dist')))
         = map_of (filesOf dist' @ concat (jobDists dirs))" by simp
  then show ?case unfolding step using ok m by simp
qed

lemma mergeJobs_reported:
  "fst (mergeJobs True dirs d) =
     (if pairwise_apart (filesOf d # jobDists dirs) then None
      else Some DuplicateFilesFoundInDistFolders)"
proof (induction "True" dirs d rule: mergeJobs.induct)
  case (1 dist)
  show ?case by simp
next
  case (2 j dirs dist)
  then show ?case by simp
next
  case (3 j contents dirs dist)
  obtain ok dist' where cp: "cp_rn True contents dist = (ok, dist')" by fastforce
  note step = mergeJobs_step [OF cp, of j dirs]
  have f: "filesOf dist' = filesOf dist @ copied contents (filesOf dist)"
    using cp_rn_files [of True contents dist] cp by simp
  have ok: "ok = apart contents (filesOf dist)"
    using cp_rn_ok [of True contents dist] cp by (simp add: apart_iff)
  show ?case
  proof (cases ok)
    case True
    with ok have a: "apart contents (filesOf dist)" by simp
    from "3.hyps" [of ok dist'] cp True
    have "fst (mergeJobs True dirs dist') =
     (if pairwise_apart (filesOf dist' # jobDists dirs) then None
      else Some DuplicateFilesFoundInDistFolders)" by simp
    then show ?thesis
      unfolding step jobDists.simps f pairwise_apart_merged [OF a] using True by simp
  next
    case False
    with ok have "\<not> pairwise_apart (filesOf dist # contents # jobDists dirs)"
      using pairwise_apart_Cons2 by blast
    with False show ?thesis unfolding step jobDists.simps by simp
  qed
qed

lemma mergeJobs_apart:
  "pairwise_apart (filesOf d # jobDists dirs) \<Longrightarrow>
     fst (mergeJobs r dirs d) = None
     \<and> set (filesOf (snd (mergeJobs r dirs d))) = set (filesOf d) \<union> set (concat (jobDists dirs))"
proof (induction r dirs d rule: mergeJobs.induct)
  case (1 reports dist)
  show ?case by simp
next
  case (2 reports j dirs dist)
  then show ?case by simp
next
  case (3 reports j contents dirs dist)
  obtain ok dist' where cp: "cp_rn reports contents dist = (ok, dist')" by fastforce
  note step = mergeJobs_step [OF cp, of j dirs]
  have f: "filesOf dist' = filesOf dist @ copied contents (filesOf dist)"
    using cp_rn_files [of reports contents dist] cp by simp
  from "3.prems" have a: "apart contents (filesOf dist)"
    unfolding jobDists.simps by (rule pairwise_apart_Cons2)
  then have ok: ok using cp_rn_ok [of reports contents dist] cp by (simp add: apart_iff)
  from "3.prems" have "pairwise_apart (filesOf dist' # jobDists dirs)"
    unfolding jobDists.simps f pairwise_apart_merged [OF a] .
  with "3.IH" [of ok dist'] cp ok
  have "fst (mergeJobs reports dirs dist') = None
     \<and> set (filesOf (snd (mergeJobs reports dirs dist')))
         = set (filesOf dist') \<union> set (concat (jobDists dirs))" by simp
  moreover have "set (filesOf dist') = set (filesOf dist) \<union> set contents"
    unfolding f using a by (rule merged_union)
  ultimately show ?case unfolding step using ok by auto
qed

lemma mergeJobs_append:
  "mergeJobs r (pre @ rest) d =
     (case mergeJobs r pre d of
        (None, d') \<Rightarrow> mergeJobs r rest d'
      | (Some e, d') \<Rightarrow> (Some e, d'))"
proof (induction r pre d rule: mergeJobs.induct)
  case (1 reports dist)
  show ?case by simp
next
  case (2 reports j dirs dist)
  then show ?case by simp
next
  case (3 reports j contents dirs dist)
  obtain ok dist' where cp: "cp_rn reports contents dist = (ok, dist')" by fastforce
  note step = mergeJobs_step [OF cp]
  show ?case
  proof (cases ok)
    case True
    with "3.IH" [of ok dist'] cp show ?thesis
      using step [of j "dirs @ rest"] step [of j dirs] by simp
  next
    case False
    then show ?thesis using step [of j "dirs @ rest"] step [of j dirs] by simp
  qed
qed

lemma mergeJobs_catch:
  assumes "fst (mergeJobs r pre d) = None"
    and "\<not> fst (cp_rn r contents (snd (mergeJobs r pre d)))"
  shows "fst (mergeJobs r (pre @ (j, Some contents) # post) d)
           = Some DuplicateFilesFoundInDistFolders"
proof -
  obtain d' where m: "mergeJobs r pre d = (None, d')"
    using assms(1) by (cases "mergeJobs r pre d") auto
  obtain d'' where cp: "cp_rn r contents d' = (False, d'')"
    using assms(2) m by (cases "cp_rn r contents d'") auto
  show ?thesis
    unfolding mergeJobs_append m using mergeJobs_step [OF cp, of j post] by simp
qed

lemma mergeDist_eq:
  "mergeDist env =
     (case jobFolders env of
        None \<Rightarrow> (Some (NoSuchDirectory (path_resolve (getCiFolder env) ''jobs'')), localDist env)
      | Some dirs \<Rightarrow> mergeJobs (cpReportsSkipped env) dirs (localDist env))"
  by (simp add: mergeDist_def cp_rn_def split: option.splits)

lemma contributions_concat:
  "jobFolders env = Some dirs \<Longrightarrow>
     concat (contributions env) = filesOf (localDist env) @ concat (jobDists dirs)"
  by (simp add: contributions_def filesOf_def split: option.splits)

lemma contributions_apart:
  "jobFolders env = Some dirs \<Longrightarrow>
     pairwise_apart (contributions env)
       \<longleftrightarrow> pairwise_apart (filesOf (localDist env) # jobDists dirs)"
  by (simp add: contributions_def filesOf_def list_all_iff split: option.splits)

lemma runner_merge_error:
  "fst (mergeDist env) = Some e \<Longrightarrow> packagePluginRunner env = Inl e"
  by (cases "mergeDist env") (simp add: packagePluginRunner_def Let_def)

text \<open>
  C2. A copy into the canonical tree keeps every entry the tree already has.
  Whatever the outcome of the merge, an entry of the tree is the one of the
  first contribution that has its path, the local folder first; when the
  merge succeeds the tree has, at every path, the entry of the first
  contribution that has it. \<^verbatim>\<open>cp\<close> exits with a failure status when a
  directory meets a file of the tree, and when it reports the files it
  skipped; whenever it does so for a job folder, the stage fails with
  ``Duplicate files found in dist folders''. Where \<^verbatim>\<open>cp\<close> reports skipped
  files, the stage fails so exactly when two contributions share a path other
  than as two directories. When no two contributions share such a path the
  merge succeeds and the tree holds the entries of all of them.
\<close>
theorem merge_never_overwrites:
  assumes "jobFolders env = Some dirs"
  shows "(\<forall>t src p e. map_of t p = Some e \<longrightarrow>
            map_of (filesOf (snd (cp_rn (cpReportsSkipped env) src (Some t)))) p = Some e)
       \<and> map_of (filesOf (snd (mergeDist env))) \<subseteq>\<^sub>m map_of (concat (contributions env))
       \<and> (fst (mergeDist env) = None \<longrightarrow>
            map_of (filesOf (snd (mergeDist env))) = map_of (concat (contributions env)))
       \<and> (\<forall>src t. fst (cp_rn (cpReportsSkipped env) src (Some t))
            = (filter (obstructed t) src = []
               \<and> \<not> (cpReportsSkipped env \<and> filter (skips t) src \<noteq> [])))
       \<and> (\<forall>pre j contents post.
            dirs = pre @ (j, Some contents) # post
            \<and> fst (mergeJobs (cpReportsSkipped env) pre (localDist env)) = None
            \<and> \<not> fst (cp_rn (cpReportsSkipped env) contents
                      (snd (mergeJobs (cpReportsSkipped env) pre (localDist env)))) \<longrightarrow>
            packagePluginRunner env = Inl DuplicateFilesFoundInDistFolders)
       \<and> (cpReportsSkipped env \<longrightarrow>
            (fst (mergeDist env) = Some DuplicateFilesFoundInDistFolders)
              = (\<not> pairwise_apart (contributions env)))
       \<and> (fst (mergeDist env) = Some DuplicateFilesFoundInDistFolders \<longrightarrow>
            packagePluginRunner env = Inl DuplicateFilesFoundInDistFolders)
       \<and> (pairwise_apart (contributions env) \<longrightarrow>
            fst (mergeDist env) = None
            \<and> set (filesOf (snd (mergeDist env))) = set (concat (contributions env))
            \<and> map_of (filesOf (snd (mergeDist env))) = map_of (concat (contributions env)))"
proof -
  let ?r = "cpReportsSkipped env"
  have merge: "mergeDist env = mergeJobs ?r dirs (localDist env)"
    using assms by (simp add: mergeDist_eq)
  have step: "\<forall>t src p e. map_of t p = Some e \<longrightarrow>
            map_of (filesOf (snd (cp_rn ?r src (Some t)))) p = Some e"
    by (simp add: cp_rn_keeps)
  have first_wins: "map_of (filesOf (snd (mergeDist env))) \<subseteq>\<^sub>m map_of (concat (contributions env))"
    unfolding merge contributions_concat [OF assms] by (rule mergeJobs_first_wins)
  have success: "fst (mergeDist env) = None \<longrightarrow>
            map_of (filesOf (snd (mergeDist env))) = map_of (concat (contributions env))"
    unfolding merge contributions_concat [OF assms] using mergeJobs_success by blast
  have status: "\<forall>src t. fst (cp_rn ?r src (Some t))
            = (filter (obstructed t) src = [] \<and> \<not> (?r \<and> filter (skips t) src \<noteq> []))"
    by (simp add: cp_rn_def)
  have caught: "\<forall>pre j contents post.
            dirs = pre @ (j, Some contents) # post
            \<and> fst (mergeJobs ?r pre (localDist env)) = None
            \<and> \<not> fst (cp_rn ?r contents (snd (mergeJobs ?r pre (localDist env)))) \<longrightarrow>
            packagePluginRunner env = Inl DuplicateFilesFoundInDistFolders"
    using mergeJobs_catch [of ?r _ "localDist env"] runner_merge_error [of env] merge by metis
  have reported: "?r \<longrightarrow>
            (fst (mergeDist env) = Some DuplicateFilesFoundInDistFolders)
              = (\<not> pairwise_apart (contributions env))"
  proof
    assume ?r
    then have "mergeDist env = mergeJobs True dirs (localDist env)" using merge by simp
    then show "(fst (mergeDist env) = Some DuplicateFilesFoundInDistFolders)
              = (\<not> pairwise_apart (contributions env))"
      unfolding contributions_apart [OF assms] by (simp add: mergeJobs_reported)
  qed
  have stage: "fst (mergeDist env) = Some DuplicateFilesFoundInDistFolders \<longrightarrow>
            packagePluginRunner env = Inl DuplicateFilesFoundInDistFolders"
    using runner_merge_error by blast
  have union: "pairwise_apart (contributions env) \<longrightarrow>
            fst (mergeDist env) = None
            \<and> set (filesOf (snd (mergeDist env))) = set (concat (contributions env))
            \<and> map_of (filesOf (snd (mergeDist env))) = map_of (concat (contributions env))"
  proof
    assume "pairwise_apart (contributions env)"
    then have pa: "pairwise_apart (filesOf (localDist env) # jobDists dirs)"
      unfolding contributions_apart [OF assms] .
    from mergeJobs_apart [OF pa, of ?r]
    have ok: "fst (mergeDist env) = None"
      and all: "set (filesOf (snd (mergeDist env))) = set (concat (contributions env))"
      unfolding merge contributions_concat [OF assms] by simp_all
    from ok success all show "fst (mergeDist env) = None
            \<and> set (filesOf (snd (mergeDist env))) = set (concat (contributions env))
            \<and> map_of (filesOf (snd (mergeDist env))) = map_of (concat (contributions env))"
      by blast
  qed
  from step first_wins success status caught reported stage union show ?thesis by blast
qed

lemmas merge_eval = mergeDist_def cp_rn_def copied_def obstructed_def skips_def blocked_def
  isFile_def filesOf_def collides_def contributions_def

theorem merge_never_overwrites_witness:
  "packagePluginRunner conflict_package_env = Inl DuplicateFilesFoundInDistFolders
   \<and> map_of (filesOf (snd (cp_rn True [(''module.js'', File ''frontend'')]
                                  (Some [(''module.js'', File ''local'')]))))
        ''module.js'' = Some (File ''local'')
   \<and> fst (mergeDist sample_package_env) = None
   \<and> set (filesOf (snd (mergeDist sample_package_env)))
        = {(''my-panel_linux_amd64'', File ''ELF''), (''plugin.json'', File ''{}''),
           (''module.js'', File ''frontend'')}
   \<and> packagePluginRunner directory_over_file_env = Inl DuplicateFilesFoundInDistFolders
   \<and> fst (mergeDist file_over_directory_env) = None
   \<and> map_of (filesOf (snd (mergeDist file_over_directory_env))) ''img'' = Some Directory"
proof -
  have jobs: "jobFolders conflict_package_env =
       Some [(''build_backend'', Some [(''my-panel_linux_amd64'', File ''ELF'')]),
             (''build_frontend'',
              Some [(''plugin.json'', File ''{}''), (''module.js'', File ''frontend'')]),
             (''build_docs'', None)]"
     "jobFolders sample_package_env =
       Some [(''build_backend'', Some [(''my-panel_linux_amd64'', File ''ELF'')]),
             (''build_frontend'',
              Some [(''plugin.json'', File ''{}''), (''module.js'', File ''frontend'')]),
             (''build_docs'', None)]"
     "jobFolders directory_over_file_env =
       Some ([(''build_backend'', Some [(''bin'', File ''ELF'')])]
             @ (''build_frontend'',
                Some [(''bin'', Directory), (''bin/tool'', File ''#!''),
                      (''plugin.json'', File ''{}'')]) # [])"
     "jobFolders file_over_directory_env =
       Some [(''build_backend'',
              Some [(''img'', Directory), (''img/logo.svg'', File ''<svg/>'')]),
             (''build_frontend'',
              Some [(''img'', File ''PNG''), (''plugin.json'', File ''{}'')])]"
    by (simp_all add: conflict_package_env_def sample_package_env_def
        directory_over_file_env_def file_over_directory_env_def)
  have clash: "cpReportsSkipped conflict_package_env"
     "\<not> pairwise_apart (contributions conflict_package_env)"
    by (simp_all add: conflict_package_env_def sample_package_env_def merge_eval)
  from merge_never_overwrites [OF jobs(1)] clash
  have first: "packagePluginRunner conflict_package_env = Inl DuplicateFilesFoundInDistFolders"
    by blast
  have "map_of [(''module.js'', File ''local'')] ''module.js'' = Some (File ''local'')" by simp
  with merge_never_overwrites [OF jobs(1)] clash(1)
  have second: "map_of (filesOf (snd (cp_rn True [(''module.js'', File ''frontend'')]
                                  (Some [(''module.js'', File ''local'')]))))
        ''module.js'' = Some (File ''local'')"
    by simp
  have apart: "pairwise_apart (contributions sample_package_env)"
     "set (concat (contributions sample_package_env))
        = {(''my-panel_linux_amd64'', File ''ELF''), (''plugin.json'', File ''{}''),
           (''module.js'', File ''frontend'')}"
    by (simp_all add: sample_package_env_def merge_eval)
  with merge_never_overwrites [OF jobs(2)]
  have third: "fst (mergeDist sample_package_env) = None
   \<and> set (filesOf (snd (mergeDist sample_package_env)))
        = {(''my-panel_linux_amd64'', File ''ELF''), (''plugin.json'', File ''{}''),
           (''module.js'', File ''frontend'')}"
    by simp
  have pre: "fst (mergeJobs (cpReportsSkipped directory_over_file_env)
                   [(''build_backend'', Some [(''bin'', File ''ELF'')])]
                   (localDist directory_over_file_env)) = None"
    and fails: "\<not> fst (cp_rn (cpReportsSkipped directory_over_file_env)
                   [(''bin'', Directory), (''bin/tool'', File ''#!''), (''plugin.json'', File ''{}'')]
                   (snd (mergeJobs (cpReportsSkipped directory_over_file_env)
                          [(''build_backend'', Some [(''bin'', File ''ELF'')])]
                          (localDist directory_over_file_env))))"
    by (simp_all add: directory_over_file_env_def sample_package_env_def merge_eval)
  from merge_never_overwrites [OF jobs(3), THEN conjunct2, THEN conjunct2, THEN conjunct2,
      THEN conjunct2, THEN conjunct1, rule_format,
      of "[(''build_backend'', Some [(''bin'', File ''ELF'')])]" "''build_frontend''"
         "[(''bin'', Directory), (''bin/tool'', File ''#!''), (''plugin.json'', File ''{}'')]" "[]"]
    pre fails
  have fourth: "packagePluginRunner directory_over_file_env = Inl DuplicateFilesFoundInDistFolders"
    by simp
  have ok: "fst (mergeDist file_over_directory_env) = None"
    and img: "map_of (concat (contributions file_over_directory_env)) ''img'' = Some Directory"
    by (simp_all add: file_over_directory_env_def sample_package_env_def merge_eval)
  with merge_never_overwrites [OF jobs(4)]
  have fifth: "fst (mergeDist file_over_directory_env) = None
   \<and> map_of (filesOf (snd (mergeDist file_over_directory_env))) ''img'' = Some Directory"
    by simp
  from first second third fourth fifth show ?thesis by blast
qed

text \<open>
  C6. Once the merge has succeeded and the manifest has been loaded from the
  canonical tree, an archive of fewer than 100 bytes makes the stage throw
  ``Invalid zip file'', whatever \<^verbatim>\<open>zip\<close> put into it, and an archive of 100
  bytes or more passes: the stage completes and the archive is among its
  packages.
\<close>
theorem undersized_zip_is_invalid:
  assumes "mergeDist env = (None, Some t)"
    and "getPluginJson env (Some t) (path_resolve (distDirOf env) ''plugin.json'') = Inr loaded"
  shows "(archive_size
            (zip_r env (writeFile t ''plugin.json''
               (stringifyPluginJson env (stampedPluginJson env loaded)))) < 100
          \<longrightarrow> packagePluginRunner env =
                Inl (InvalidZipFile (path_resolve (packagesDirOf env)
                      (zipNameOf (stampedPluginJson env loaded)))))
       \<and> (100 \<le> archive_size
            (zip_r env (writeFile t ''plugin.json''
               (stringifyPluginJson env (stampedPluginJson env loaded))))
          \<longrightarrow> (\<exists>out. packagePluginRunner env = Inr out
                \<and> hd (out_packages out) =
                    (zipNameOf (stampedPluginJson env loaded),
                     zip_r env (writeFile t ''plugin.json''
                       (stringifyPluginJson env (stampedPluginJson env loaded))))))"
  using assms by (simp add: packagePluginRunner_def Let_def minimumZipSize_def)


theorem undersized_zip_is_invalid_witness:
  "packagePluginRunner truncated_zip_env
     = Inl (InvalidZipFile ''/home/circleci/plugin/ci/packages/my-panel-1.0.0.zip'')
   \<and> (\<exists>out. packagePluginRunner sample_package_env = Inr out
         \<and> hd (out_packages out) =
              (''my-panel-1.0.0.zip'',
               \<lparr> archive_size = 322,
                 archive_files = [(''my-panel_linux_amd64'', File ''ELF''),
                                  (''plugin.json'', File ''{ built }''),
                                  (''module.js'', File ''frontend'')] \<rparr>))"
proof -
  let ?t = "[(''my-panel_linux_amd64'', File ''ELF''), (''plugin.json'', File ''{}''),
             (''module.js'', File ''frontend'')]"
  have merged: "mergeDist truncated_zip_env = (None, Some ?t)"
      "mergeDist sample_package_env = (None, Some ?t)"
    by (simp_all add: truncated_zip_env_def sample_package_env_def merge_eval)
  have loaded:
    "getPluginJson truncated_zip_env (Some ?t)
       (path_resolve (distDirOf truncated_zip_env) ''plugin.json'') = Inr sample_manifest"
    "getPluginJson sample_package_env (Some ?t)
       (path_resolve (distDirOf sample_package_env) ''plugin.json'') = Inr sample_manifest"
    by (simp_all add: truncated_zip_env_def sample_package_env_def pluginJsonReader_def filesOf_def)
  have small: "packagePluginRunner truncated_zip_env
     = Inl (InvalidZipFile ''/home/circleci/plugin/ci/packages/my-panel-1.0.0.zip'')"
    using undersized_zip_is_invalid [OF merged(1) loaded(1)]
    by (simp add: truncated_zip_env_def sample_package_env_def sample_manifest_def packagesDirOf_def
        zipNameOf_def stampedPluginJson_def concat_string_def path_resolve_def)
  have large: "\<exists>out. packagePluginRunner sample_package_env = Inr out
         \<and> hd (out_packages out) =
              (''my-panel-1.0.0.zip'',
               \<lparr> archive_size = 322,
                 archive_files = [(''my-panel_linux_amd64'', File ''ELF''),
                                  (''plugin.json'', File ''{ built }''),
                                  (''module.js'', File ''frontend'')] \<rparr>)"
    using undersized_zip_is_invalid [OF merged(2) loaded(2)]
    by (simp add: sample_package_env_def sample_manifest_def zipNameOf_def stampedPluginJson_def
        concat_string_def writeFile_def)
  from small large show ?thesis ..
qed

lemma mergeJobs_nothing: "jobDists dirs = [] \<Longrightarrow> mergeJobs r dirs d = (None, d)"
  by (induction r dirs d rule: mergeJobs.induct) simp_all

text \<open>
  C8, as the code has it. When there is no local \<^verbatim>\<open>dist\<close> folder and no job
  folder has a \<^verbatim>\<open>dist\<close> folder, the merge raises no error and the canonical
  tree is not created; the stage then fails, whatever the manifest reader
  does: with the reader's error for the missing \<^verbatim>\<open>plugin.json\<close>, or else on
  changing into the tree that does not exist.
\<close>
theorem empty_dist_fails:
  assumes "localDist env = None" and "jobFolders env = Some dirs" and "jobDists dirs = []"
  shows "mergeDist env = (None, None)
       \<and> packagePluginRunner env =
           (case getPluginJson env None (path_resolve (distDirOf env) ''plugin.json'') of
              Inl e \<Rightarrow> Inl e
            | Inr loaded \<Rightarrow> Inl (NoSuchDirectory (distDirOf env)))
       \<and> (\<exists>e. packagePluginRunner env = Inl e)"
proof -
  have merged: "mergeDist env = (None, None)"
    using assms by (simp add: mergeDist_eq mergeJobs_nothing)
  then have run: "packagePluginRunner env =
           (case getPluginJson env None (path_resolve (distDirOf env) ''plugin.json'') of
              Inl e \<Rightarrow> Inl e
            | Inr loaded \<Rightarrow> Inl (NoSuchDirectory (distDirOf env)))"
    by (simp add: packagePluginRunner_def Let_def split: sum.splits)
  then have "\<exists>e. packagePluginRunner env = Inl e"
    by (cases "getPluginJson env None (path_resolve (distDirOf env) ''plugin.json'')") simp_all
  with merged run show ?thesis by blast
qed

theorem empty_dist_fails_witness:
  "mergeDist empty_package_env = (None, None)
   \<and> (\<exists>e. packagePluginRunner empty_package_env = Inl e)"
proof -
  have "localDist empty_package_env = None"
    "jobFolders empty_package_env = Some [(''build_frontend'', None)]"
    "jobDists [(''build_frontend'', None :: folder option)] = []"
    by (simp_all add: empty_package_env_def sample_package_env_def)
  from empty_dist_fails [OF this] show ?thesis by blast
qed

theorem empty_dist_counterexample:
  "packagePluginRunner empty_package_env
     = Inl (UnableToFindPluginJson ''/home/circleci/plugin/ci/dist/my-panel/plugin.json'')"
  by (simp add: packagePluginRunner_def Let_def empty_package_env_def sample_package_env_def
      mergeDist_def pluginJsonReader_def filesOf_def distDirOf_def packagesDirOf_def path_resolve_def)

subsection \<open>Build Stage\<close>

text \<open>
  C3, as the code has it. In frontend mode the two folders are moved only after
  the awaited build delegate has ended with success: the stage then returns
  with neither folder left in the working directory, the job folder holding
  what the delegate left in them, and no delegate running. When the delegate
  fails the stage throws its error and nothing is moved.
\<close>
theorem frontend_build_moves_output:
  assumes "pluginBuildRunner env (ws\<lparr>jobDist := None, jobCoverage := None, jobStats := False\<rparr>)
             = (failure, ws')"
  shows "(failure = None \<longrightarrow>
            (\<exists>ws''. buildPluginRunner False env ws = (Inr (), ws'', None)
               \<and> cwdDist ws'' = None \<and> cwdCoverage ws'' = None
               \<and> jobDist ws'' = (case cwdDist ws' of None \<Rightarrow> jobDist ws' | Some d \<Rightarrow> Some d)
               \<and> jobCoverage ws'' =
                   (case cwdCoverage ws' of None \<Rightarrow> jobCoverage ws' | Some c \<Rightarrow> Some c)
               \<and> jobStats ws''))
       \<and> (\<forall>e. failure = Some e \<longrightarrow> buildPluginRunner False env ws = (Inl e, ws', None))"
  using assms
  by (auto simp: buildPluginRunner_def Let_def moveLocalFolders_def writeJobStats_def
      split: option.splits)

theorem frontend_build_moves_output_witness:
  "fst (buildPluginRunner False sample_build_env clean_workspace) = Inr ()
   \<and> cwdDist (fst (snd (buildPluginRunner False sample_build_env clean_workspace))) = None
   \<and> cwdCoverage (fst (snd (buildPluginRunner False sample_build_env clean_workspace))) = None
   \<and> jobDist (fst (snd (buildPluginRunner False sample_build_env clean_workspace)))
       = Some [(''plugin.json'', ''{}''), (''module.js'', ''frontend'')]
   \<and> jobCoverage (fst (snd (buildPluginRunner False sample_build_env clean_workspace)))
       = Some [(''lcov.info'', ''TN:'')]
   \<and> buildPluginRunner False failing_build_env clean_workspace =
       (Inl (CommandFailed ''webpack''),
        clean_workspace\<lparr>cwdDist := Some [(''plugin.json'', ''{}'')]\<rparr>, None)"
proof -
  let ?ws = "clean_workspace\<lparr>jobDist := None, jobCoverage := None, jobStats := False\<rparr>"
  have ok: "pluginBuildRunner sample_build_env ?ws =
      (None, ?ws\<lparr>cwdDist := Some [(''plugin.json'', ''{}''), (''module.js'', ''frontend'')],
             cwdCoverage := Some [(''lcov.info'', ''TN:'')]\<rparr>)"
    by (simp add: sample_build_env_def)
  have bad: "pluginBuildRunner failing_build_env ?ws =
      (Some (CommandFailed ''webpack''), ?ws\<lparr>cwdDist := Some [(''plugin.json'', ''{}'')]\<rparr>)"
    by (simp add: failing_build_env_def sample_build_env_def)
  have first: "fst (buildPluginRunner False sample_build_env clean_workspace) = Inr ()
   \<and> cwdDist (fst (snd (buildPluginRunner False sample_build_env clean_workspace))) = None
   \<and> cwdCoverage (fst (snd (buildPluginRunner False sample_build_env clean_workspace))) = None
   \<and> jobDist (fst (snd (buildPluginRunner False sample_build_env clean_workspace)))
       = Some [(''plugin.json'', ''{}''), (''module.js'', ''frontend'')]
   \<and> jobCoverage (fst (snd (buildPluginRunner False sample_build_env clean_workspace)))
       = Some [(''lcov.info'', ''TN:'')]"
    using frontend_build_moves_output [OF ok] by auto
  have second: "buildPluginRunner False failing_build_env clean_workspace =
       (Inl (CommandFailed ''webpack''),
        clean_workspace\<lparr>cwdDist := Some [(''plugin.json'', ''{}'')]\<rparr>, None)"
    using frontend_build_moves_output [OF bad] by (simp add: clean_workspace_def)
  from first second show ?thesis by simp
qed

theorem build_move_counterexample:
  "fst (buildPluginRunner True sample_build_env clean_workspace) = Inr ()
   \<and> snd (snd (buildPluginRunner True sample_build_env clean_workspace)) \<noteq> None
   \<and> jobDist (fst (snd (buildPluginRunner True sample_build_env clean_workspace))) = None
   \<and> cwdDist (delegateEnded (buildPluginRunner True sample_build_env clean_workspace))
       = Some [(''my-panel_linux_amd64'', ''ELF'')]
   \<and> jobDist (delegateEnded (buildPluginRunner True sample_build_env clean_workspace)) = None
   \<and> fst (buildPluginRunner False failing_build_env clean_workspace) = Inl (CommandFailed ''webpack'')
   \<and> cwdDist (fst (snd (buildPluginRunner False failing_build_env clean_workspace)))
       = Some [(''plugin.json'', ''{}'')]
   \<and> jobDist (fst (snd (buildPluginRunner False failing_build_env clean_workspace))) = None"
  by (simp add: buildPluginRunner_def Let_def moveLocalFolders_def writeJobStats_def
      delegateEnded_def sample_build_env_def failing_build_env_def clean_workspace_def)

subsection \<open>Test Stage\<close>







end
